theory Spec2Isabelle
  imports Complex_Main "HOL-Library.AList"
begin

section \<open>Python values, dictionaries and exceptions\<close>

text \<open>
  The events handled by the monitoring writer are Python dictionaries with string keys and
  values of any type. A value is one of the shapes below. A finite float is carried as the
  rational it denotes; NaN and the infinities are not represented. A \<open>datetime\<close> is carried
  by an opaque text. A dictionary is an association list in insertion order with distinct
  keys: \<open>map_of\<close> reads a key, \<open>AList.update\<close> is \<open>d[k] = v\<close> (in place when the key exists,
  appended otherwise) and \<open>AList.delete\<close> removes a key.

  The definitions keep the names of the source; a leading underscore of a Python name is
  dropped, the method \<open>do\<close> of the writer is \<open>writer_do\<close>, and the method
  \<open>write_application_event\<close> of the tag engine is \<open>td_write_application_event\<close>.
\<close>

datatype pyval =
    PNone
  | PBool bool
  | PInt int
  | PFloat rat
  | PStr string
  | PDatetime string
  | PList "pyval list"
  | PDict "(string \<times> pyval) list"

type_synonym pydict = "(string \<times> pyval) list"

datatype exn =
    KeyError string
  | TypeError
  | ValueError
  | AttributeError
  | JSONDecodeError
  | WriterEventValueError string
  | WriterEventTypeError string
  | V3IOFramesError string
  | QueryError string
  | MLRunBadRequestError string
  | MLRunInvalidArgumentError string
  | OtherError string
  | DanglingReference

text \<open>
  \<open>JSONDecodeError\<close> is a subclass of \<open>ValueError\<close> that is neither a \<open>KeyError\<close> nor a
  \<open>TypeError\<close>. \<open>WriterEventValueError\<close> and \<open>WriterEventTypeError\<close> are the two
  subclasses of the writer's marker class \<open>_WriterEventError\<close>. \<open>OtherError\<close> stands for
  any exception of a collaborator that the code never names. \<open>DanglingReference\<close> cannot
  occur in Python; it makes a read of an unallocated address a value of the model.
\<close>

definition is_WriterEventError :: "exn \<Rightarrow> bool" where
  "is_WriterEventError e =
     (case e of WriterEventValueError _ \<Rightarrow> True | WriterEventTypeError _ \<Rightarrow> True | _ \<Rightarrow> False)"

definition bindE :: "exn + 'a \<Rightarrow> ('a \<Rightarrow> exn + 'b) \<Rightarrow> exn + 'b" where
  "bindE m f = (case m of Inl e \<Rightarrow> Inl e | Inr x \<Rightarrow> f x)"

text \<open>\<open>obj[key]\<close> with a string key: a dictionary raises \<open>KeyError\<close> on a missing key,
  every other value raises \<open>TypeError\<close> (a string or list wants integer indices, the rest
  is not subscriptable).\<close>

definition py_getitem :: "pyval \<Rightarrow> string \<Rightarrow> exn + pyval" where
  "py_getitem obj k =
     (case obj of
        PDict d \<Rightarrow> (case map_of d k of None \<Rightarrow> Inl (KeyError k) | Some v \<Rightarrow> Inr v)
      | _ \<Rightarrow> Inl TypeError)"

definition dict_getitem :: "pydict \<Rightarrow> string \<Rightarrow> exn + pyval" where
  "dict_getitem d k = (case map_of d k of None \<Rightarrow> Inl (KeyError k) | Some v \<Rightarrow> Inr v)"

text \<open>\<open>d.pop(key)\<close> and \<open>del d[key]\<close>: both raise \<open>KeyError\<close> on a missing key.\<close>

definition dict_pop :: "pydict \<Rightarrow> string \<Rightarrow> exn + (pyval \<times> pydict)" where
  "dict_pop d k =
     (case map_of d k of None \<Rightarrow> Inl (KeyError k) | Some v \<Rightarrow> Inr (v, AList.delete k d))"

definition dict_delitem :: "pydict \<Rightarrow> string \<Rightarrow> exn + pydict" where
  "dict_delitem d k =
     (case map_of d k of None \<Rightarrow> Inl (KeyError k) | Some _ \<Rightarrow> Inr (AList.delete k d))"

definition py_type_repr :: "pyval \<Rightarrow> string" where
  "py_type_repr v =
     (case v of
        PNone \<Rightarrow> ''<class 'NoneType'>''
      | PBool _ \<Rightarrow> ''<class 'bool'>''
      | PInt _ \<Rightarrow> ''<class 'int'>''
      | PFloat _ \<Rightarrow> ''<class 'float'>''
      | PStr _ \<Rightarrow> ''<class 'str'>''
      | PDatetime _ \<Rightarrow> ''<class 'datetime.datetime'>''
      | PList _ \<Rightarrow> ''<class 'list'>''
      | PDict _ \<Rightarrow> ''<class 'dict'>'')"

text \<open>
  The functions of Python's standard library that the code calls are parameters of the
  model: \<open>json.loads\<close> on a text (\<open>None\<close> when it raises \<open>JSONDecodeError\<close>),
  \<open>json.dumps\<close> where the model does not compute it (\<open>None\<close> when a value is not
  serialisable, a \<open>TypeError\<close>),
  \<open>datetime.fromisoformat\<close> on a text (\<open>None\<close> when it raises \<open>ValueError\<close>), pandas'
  \<open>to_datetime\<close> on one cell (\<open>None\<close> when it raises) and \<open>str()\<close> of a value that is not a
  string.
\<close>

record pylib =
  loads_text :: "string \<Rightarrow> pyval option"
  dumps :: "pyval \<Rightarrow> string option"
  fromisoformat_text :: "string \<Rightarrow> pyval option"
  to_datetime :: "pyval \<Rightarrow> pyval option"
  str_of :: "pyval \<Rightarrow> string"

definition json_loads :: "pylib \<Rightarrow> pyval \<Rightarrow> exn + pyval" where
  "json_loads lib v =
     (case v of
        PStr s \<Rightarrow> (case loads_text lib s of None \<Rightarrow> Inl JSONDecodeError | Some r \<Rightarrow> Inr r)
      | _ \<Rightarrow> Inl TypeError)"

text \<open>
  \<open>json.dumps\<close> of \<open>None\<close> is \<open>null\<close>. \<open>json.dumps\<close> of a text with ASCII characters only
  is the text between double quotes, in which a double quote and a backslash get a
  backslash in front, backspace, form feed, newline, carriage return and tab become a
  backslash and the letter b, f, n, r or t, and every other character outside the range
  from the space to the tilde becomes a backslash, \<open>u00\<close> and its two hexadecimal digits.
  Every other value, and a text with other characters, is left to the parameter \<open>dumps\<close>.
\<close>

definition hex_digit :: "nat \<Rightarrow> char" where
  "hex_digit n = ''0123456789abcdef'' ! (n mod 16)"

definition json_escape_char :: "char \<Rightarrow> string" where
  "json_escape_char c =
     (if c = CHR 0x22 then [CHR 0x5C, CHR 0x22]
      else if c = CHR 0x5C then [CHR 0x5C, CHR 0x5C]
      else if c = CHR 0x08 then [CHR 0x5C, CHR ''b'']
      else if c = CHR 0x0C then [CHR 0x5C, CHR ''f'']
      else if c = CHR 0x0A then [CHR 0x5C, CHR ''n'']
      else if c = CHR 0x0D then [CHR 0x5C, CHR ''r'']
      else if c = CHR 0x09 then [CHR 0x5C, CHR ''t'']
      else if (of_char c :: nat) < 32 \<or> (of_char c :: nat) = 127 then
        [CHR 0x5C, CHR ''u'', CHR ''0'', CHR ''0'',
         hex_digit (of_char c div 16), hex_digit (of_char c mod 16)]
      else [c])"

definition is_ascii :: "string \<Rightarrow> bool" where
  "is_ascii s = list_all (\<lambda>c. (of_char c :: nat) < 128) s"

definition json_dumps_text :: "string \<Rightarrow> string" where
  "json_dumps_text s = [CHR 0x22] @ concat (map json_escape_char s) @ [CHR 0x22]"

definition json_dumps :: "pylib \<Rightarrow> pyval \<Rightarrow> exn + string" where
  "json_dumps lib v =
     (case v of
        PNone \<Rightarrow> Inr ''null''
      | PStr s \<Rightarrow>
          (if is_ascii s then Inr (json_dumps_text s)
           else (case dumps lib v of None \<Rightarrow> Inl TypeError | Some r \<Rightarrow> Inr r))
      | _ \<Rightarrow> (case dumps lib v of None \<Rightarrow> Inl TypeError | Some r \<Rightarrow> Inr r))"

definition fromisoformat :: "pylib \<Rightarrow> pyval \<Rightarrow> exn + pyval" where
  "fromisoformat lib v =
     (case v of
        PStr s \<Rightarrow> (case fromisoformat_text lib s of None \<Rightarrow> Inl ValueError | Some t \<Rightarrow> Inr t)
      | _ \<Rightarrow> Inl TypeError)"

text \<open>A replacement field \<open>{v}\<close> of an f-string: a string is inserted as it is.\<close>

definition py_format :: "pylib \<Rightarrow> pyval \<Rightarrow> string" where
  "py_format lib v = (case v of PStr s \<Rightarrow> s | _ \<Rightarrow> str_of lib v)"

section \<open>Constants of the monitoring schema\<close>

text \<open>
  Modelled from the spec: the module \<open>mlrun.common.schemas.model_monitoring.constants\<close> is
  not among the sources. The members of \<open>WriterEvent\<close> are those the writer, the stores and
  the test fixture name (endpoint id, application name, result name, kind, value, status,
  extra data, start and end inference time, current stats); each is a string enum member
  whose value is its name in lower case, and \<open>WriterEvent.list()\<close> lists the values.
  \<open>ResultStatusApp.detected\<close> is 2 on the scale no-anomaly = 0, possible = 1, detected = 2.
\<close>

definition APPLICATION_NAME :: string where "APPLICATION_NAME = ''application_name''"
definition ENDPOINT_ID :: string where "ENDPOINT_ID = ''endpoint_id''"
definition START_INFER_TIME :: string where "START_INFER_TIME = ''start_infer_time''"
definition END_INFER_TIME :: string where "END_INFER_TIME = ''end_infer_time''"
definition RESULT_NAME :: string where "RESULT_NAME = ''result_name''"
definition RESULT_VALUE :: string where "RESULT_VALUE = ''result_value''"
definition RESULT_KIND :: string where "RESULT_KIND = ''result_kind''"
definition RESULT_STATUS :: string where "RESULT_STATUS = ''result_status''"
definition RESULT_EXTRA_DATA :: string where "RESULT_EXTRA_DATA = ''result_extra_data''"
definition CURRENT_STATS :: string where "CURRENT_STATS = ''current_stats''"
definition METRIC_NAME :: string where "METRIC_NAME = ''metric_name''"
definition PROJECT :: string where "PROJECT = ''project''"

definition WriterEvent_list :: "string list" where
  "WriterEvent_list =
     [APPLICATION_NAME, ENDPOINT_ID, START_INFER_TIME, END_INFER_TIME, RESULT_NAME,
      RESULT_VALUE, RESULT_KIND, RESULT_STATUS, RESULT_EXTRA_DATA, CURRENT_STATS]"

definition detected :: int where "detected = 2"

section \<open>The writer: event reconstruction\<close>

text \<open>The dictionary comprehension \<open>{key: event[key] for key in keys}\<close>: the keys are read
  in order and the first failing subscript ends it.\<close>

fun dict_comprehension :: "pyval \<Rightarrow> string list \<Rightarrow> pydict \<Rightarrow> exn + pydict" where
  "dict_comprehension event [] acc = Inr acc"
| "dict_comprehension event (key # keys) acc =
     (case py_getitem event key of
        Inl e \<Rightarrow> Inl e
      | Inr v \<Rightarrow> dict_comprehension event keys (AList.update key v acc))"

text \<open>\<open>ModelMonitoringWriter._reconstruct_event\<close>: the body of the \<open>try\<close>, then the two
  handlers. A \<open>KeyError\<close> becomes \<open>_WriterEventValueError\<close>, a \<open>TypeError\<close> becomes
  \<open>_WriterEventTypeError\<close>, and every other exception leaves the function as it is.\<close>

definition reconstruct_event_body :: "pylib \<Rightarrow> pyval \<Rightarrow> exn + pydict" where
  "reconstruct_event_body lib event =
     bindE (dict_comprehension event WriterEvent_list []) (\<lambda>result_event.
     bindE (py_getitem event CURRENT_STATS) (\<lambda>stats.
     bindE (json_loads lib stats) (\<lambda>parsed.
     Inr (AList.update CURRENT_STATS parsed result_event))))"

definition reconstruct_event :: "pylib \<Rightarrow> pyval \<Rightarrow> exn + pydict" where
  "reconstruct_event lib event =
     (case reconstruct_event_body lib event of
        Inl (KeyError _) \<Rightarrow>
          Inl (WriterEventValueError
            ''The received event misses some keys compared to the expected monitoring application event schema'')
      | Inl TypeError \<Rightarrow>
          Inl (WriterEventTypeError
            (''The event is of type: '' @ py_type_repr event @ '', expected a dictionary''))
      | r \<Rightarrow> r)"

section \<open>Objects, collaborators and effects\<close>

text \<open>
  The event handed to the stores is a reference to a dictionary object, and the code
  copies, pops and assigns. Dictionary objects therefore live in a heap, a list of
  dictionaries indexed by address; a new object is appended. The backends and the
  notification pusher are collaborators: what they answer is given by \<open>backends\<close>, and
  every call made to one of them is appended to the trace with the exception it raised,
  if any. The list \<open>kv_schemas\<close> is the writer's attribute \<open>_kv_schemas\<close>. Logging is
  not modelled.
\<close>

type_synonym addr = nat

datatype NotificationSeverity = INFO | WARNING | ERROR

datatype call =
    FramesWrite string string "pydict list" "string list"
  | KVUpdate string string pyval "(pyval \<times> string) list"
  | KVCreateSchema string string string "pydict list"
  | Push string NotificationSeverity
  | TDExecute string
  | TDQuery string

record backends =
  raises :: "call \<Rightarrow> exn option"
  status_code :: "call \<Rightarrow> int"
  query_result :: "string \<Rightarrow> string list \<times> pyval list list"

record world =
  heap :: "pydict list"
  trace :: "(call \<times> exn option) list"
  kv_schemas :: "pyval list"

type_synonym 'a io = "world \<Rightarrow> (exn + 'a) \<times> world"

definition returnM :: "'a \<Rightarrow> 'a io" where
  "returnM x w = (Inr x, w)"

definition liftE :: "exn + 'a \<Rightarrow> 'a io" where
  "liftE r w = (r, w)"

definition bindM :: "'a io \<Rightarrow> ('a \<Rightarrow> 'b io) \<Rightarrow> 'b io" where
  "bindM m f w = (case m w of (Inl e, w') \<Rightarrow> (Inl e, w') | (Inr x, w') \<Rightarrow> f x w')"

definition heap_get :: "world \<Rightarrow> addr \<Rightarrow> pydict option" where
  "heap_get w a = (if a < length (heap w) then Some (heap w ! a) else None)"

definition read_dict :: "addr \<Rightarrow> pydict io" where
  "read_dict a w = (case heap_get w a of None \<Rightarrow> (Inl DanglingReference, w) | Some d \<Rightarrow> (Inr d, w))"

definition write_dict :: "addr \<Rightarrow> pydict \<Rightarrow> unit io" where
  "write_dict a d w =
     (if a < length (heap w) then (Inr (), w\<lparr>heap := (heap w)[a := d]\<rparr>)
      else (Inl DanglingReference, w))"

definition new_dict :: "pydict \<Rightarrow> addr io" where
  "new_dict d w = (Inr (length (heap w)), w\<lparr>heap := heap w @ [d]\<rparr>)"

text \<open>The operations of a dictionary object: \<open>d.copy()\<close> makes a new object with the same
  items, the others read or change the object at the address.\<close>

definition obj_copy :: "addr \<Rightarrow> addr io" where
  "obj_copy a = bindM (read_dict a) new_dict"

definition obj_getitem :: "addr \<Rightarrow> string \<Rightarrow> pyval io" where
  "obj_getitem a k = bindM (read_dict a) (\<lambda>d. liftE (dict_getitem d k))"

definition obj_setitem :: "addr \<Rightarrow> string \<Rightarrow> pyval \<Rightarrow> unit io" where
  "obj_setitem a k v = bindM (read_dict a) (\<lambda>d. write_dict a (AList.update k v d))"

definition obj_delitem :: "addr \<Rightarrow> string \<Rightarrow> unit io" where
  "obj_delitem a k =
     bindM (read_dict a) (\<lambda>d. bindM (liftE (dict_delitem d k)) (\<lambda>d'. write_dict a d'))"

definition obj_pop :: "addr \<Rightarrow> string \<Rightarrow> pyval io" where
  "obj_pop a k =
     bindM (read_dict a) (\<lambda>d. bindM (liftE (dict_pop d k)) (\<lambda>(v, d').
       bindM (write_dict a d') (\<lambda>_. returnM v)))"

text \<open>A call to a collaborator: it is recorded, and it returns or raises.\<close>

definition perform :: "backends \<Rightarrow> call \<Rightarrow> unit io" where
  "perform bk c w =
     (case raises bk c of
        None \<Rightarrow> (Inr (), w\<lparr>trace := trace w @ [(c, None)]\<rparr>)
      | Some e \<Rightarrow> (Inl e, w\<lparr>trace := trace w @ [(c, Some e)]\<rparr>))"

section \<open>The frames store: \<open>V3IOTSDBstore\<close>\<close>

record V3IOTSDBstore =
  tsdb_project :: string
  tsdb_table :: string
  tsdb_container :: string

definition TSDB_BE :: string where "TSDB_BE = ''tsdb''"

text \<open>\<open>try: ... except V3IOFramesError as err: logger.warn(...)\<close>: the handler logs and falls
  through, every other exception goes on to the caller.\<close>

definition except_V3IOFramesError :: "unit io \<Rightarrow> unit io" where
  "except_V3IOFramesError m w =
     (case m w of (Inl (V3IOFramesError msg), w') \<Rightarrow> (Inr (), w') | r \<Rightarrow> r)"

text \<open>\<open>V3IOTSDBstore.write_application_event\<close>. The data frame built by
  \<open>DataFrame.from_records([event])\<close> is the list of its rows, here the one dictionary.\<close>

definition write_application_event :: "pylib \<Rightarrow> backends \<Rightarrow> V3IOTSDBstore \<Rightarrow> addr \<Rightarrow> unit io" where
  "write_application_event lib bk self event0 =
     bindM (obj_copy event0) (\<lambda>event.
     bindM (obj_getitem event END_INFER_TIME) (\<lambda>s.
     bindM (liftE (fromisoformat lib s)) (\<lambda>t.
     bindM (obj_setitem event END_INFER_TIME t) (\<lambda>_.
     bindM (obj_delitem event RESULT_EXTRA_DATA) (\<lambda>_.
     except_V3IOFramesError
       (bindM (read_dict event) (\<lambda>row.
        perform bk (FramesWrite TSDB_BE (tsdb_table self) [row]
          [END_INFER_TIME, ENDPOINT_ID, APPLICATION_NAME, RESULT_NAME]))))))))"

section \<open>The writer and the notifier\<close>

text \<open>
  The writer as \<open>__init__\<close> leaves it. \<open>kv_client\<close> tells whether the attribute
  \<open>_kv_client\<close> was set, which \<open>__init__\<close> does for the V3IO key-value store type only.

  Modelled from the spec: \<open>mlrun.model_monitoring.get_tsdb_store\<close> is not among the
  sources; as the store factory it resolves the configuration to a store instance, here the
  frames store built from the three entries of \<open>_tsdb_configurations\<close>.
\<close>

record ModelMonitoringWriter =
  project :: string
  v3io_container :: string
  v3io_path :: string
  tsdb_configurations :: V3IOTSDBstore
  kv_client :: bool
  store_type_is_v3io_nosql :: bool

definition get_tsdb_store :: "V3IOTSDBstore \<Rightarrow> V3IOTSDBstore" where
  "get_tsdb_store conf = conf"

text \<open>\<open>ModelMonitoringWriter._update_tsdb\<close>.\<close>

definition update_tsdb :: "pylib \<Rightarrow> backends \<Rightarrow> ModelMonitoringWriter \<Rightarrow> addr \<Rightarrow> unit io" where
  "update_tsdb lib bk self event =
     write_application_event lib bk (get_tsdb_store (tsdb_configurations self)) event"

text \<open>A dictionary key must be hashable: a list or a dictionary is not.\<close>

definition hashable :: "pyval \<Rightarrow> exn + unit" where
  "hashable v = (case v of PList _ \<Rightarrow> Inl TypeError | PDict _ \<Rightarrow> Inl TypeError | _ \<Rightarrow> Inr ())"

text \<open>\<open>path + v\<close> for a string \<open>path\<close>: \<open>v\<close> must be a string.\<close>

definition str_add :: "string \<Rightarrow> pyval \<Rightarrow> exn + string" where
  "str_add p v = (case v of PStr s \<Rightarrow> Inr (p @ s) | _ \<Rightarrow> Inl TypeError)"

definition HTTP_OK :: int where "HTTP_OK = 200"

text \<open>\<open>ModelMonitoringWriter._generate_kv_schema\<close>: the schema is requested, a status
  other than 200 raises, and otherwise the endpoint id is remembered.\<close>

definition generate_kv_schema ::
  "pylib \<Rightarrow> backends \<Rightarrow> ModelMonitoringWriter \<Rightarrow> pyval \<Rightarrow> unit io" where
  "generate_kv_schema lib bk self endpoint_id =
     (let fields = [ [(''name'', PStr RESULT_NAME), (''type'', PStr ''string''),
                     (''nullable'', PBool False)] ]
      in bindM (liftE (str_add (v3io_path self) endpoint_id)) (\<lambda>table_path.
         let c = KVCreateSchema (v3io_container self) table_path APPLICATION_NAME fields
         in bindM (perform bk c) (\<lambda>_.
            if status_code bk c \<noteq> HTTP_OK then
              liftE (Inl (MLRunBadRequestError
                (''Couldn't infer schema for endpoint '' @ py_format lib endpoint_id @
                 '' which is required for Grafana dashboards'')))
            else (\<lambda>w. (Inr (), w\<lparr>kv_schemas := kv_schemas w @ [endpoint_id]\<rparr>)))))"

text \<open>\<open>ModelMonitoringWriter._update_kv_db\<close>: the three keys are popped from a copy of
  the event, the rest is serialised and stored under the application name, and the
  schema is generated when the store type is the V3IO key-value store and the endpoint
  id has not been seen.\<close>

definition update_kv_db :: "pylib \<Rightarrow> backends \<Rightarrow> ModelMonitoringWriter \<Rightarrow> addr \<Rightarrow> unit io" where
  "update_kv_db lib bk self event0 =
     bindM (obj_copy event0) (\<lambda>event.
     bindM (obj_pop event ENDPOINT_ID) (\<lambda>endpoint_id.
     bindM (obj_pop event APPLICATION_NAME) (\<lambda>app_name.
     bindM (obj_pop event RESULT_NAME) (\<lambda>metric_name.
     bindM (read_dict event) (\<lambda>d.
     bindM (liftE (json_dumps lib (PDict d))) (\<lambda>js.
     bindM (liftE (hashable metric_name)) (\<lambda>_.
     bindM (liftE (if kv_client self then Inr () else Inl AttributeError)) (\<lambda>_.
     bindM (liftE (str_add (v3io_path self) endpoint_id)) (\<lambda>table_path.
     bindM (perform bk (KVUpdate (v3io_container self) table_path app_name
              [(metric_name, js)])) (\<lambda>_.
     (\<lambda>w. if store_type_is_v3io_nosql self \<and> endpoint_id \<notin> set (kv_schemas w)
           then generate_kv_schema lib bk self endpoint_id w
           else (Inr (), w))))))))))))"

record Notifier =
  notifier_event :: addr
  notifier_severity :: NotificationSeverity

text \<open>\<open>_Notifier(event=..., notification_pusher=...)\<close>: the severity defaults to \<open>WARNING\<close>.\<close>

definition new_Notifier :: "addr \<Rightarrow> Notifier" where
  "new_Notifier event = \<lparr>notifier_event = event, notifier_severity = WARNING\<rparr>"

text \<open>\<open>v >= ResultStatusApp.detected\<close>, the right-hand side an integer: numbers compare by
  value (\<open>True\<close> is 1 and \<open>False\<close> is 0), every other value raises \<open>TypeError\<close>.\<close>

definition py_ge_int :: "pyval \<Rightarrow> int \<Rightarrow> exn + bool" where
  "py_ge_int v n =
     (case v of
        PInt i \<Rightarrow> Inr (n \<le> i)
      | PBool b \<Rightarrow> Inr (n \<le> (if b then 1 else 0))
      | PFloat q \<Rightarrow> Inr (of_int n \<le> q)
      | _ \<Rightarrow> Inl TypeError)"

text \<open>\<open>_Notifier._should_send_event\<close>, \<open>_Notifier._generate_message\<close> and
  \<open>_Notifier.notify\<close>.\<close>

definition should_send_event :: "Notifier \<Rightarrow> bool io" where
  "should_send_event self =
     bindM (obj_getitem (notifier_event self) RESULT_STATUS) (\<lambda>st.
     liftE (py_ge_int st detected))"

definition generate_message :: "pylib \<Rightarrow> Notifier \<Rightarrow> string io" where
  "generate_message lib self =
     (let ev = notifier_event self in
     bindM (obj_getitem ev APPLICATION_NAME) (\<lambda>app.
     bindM (obj_getitem ev RESULT_KIND) (\<lambda>kind.
     bindM (obj_getitem ev ENDPOINT_ID) (\<lambda>ep.
     bindM (obj_getitem ev START_INFER_TIME) (\<lambda>start.
     bindM (obj_getitem ev RESULT_NAME) (\<lambda>name.
     bindM (obj_getitem ev RESULT_VALUE) (\<lambda>val.
     bindM (obj_getitem ev RESULT_STATUS) (\<lambda>st.
     bindM (obj_getitem ev RESULT_EXTRA_DATA) (\<lambda>extra.
     returnM
       (''The monitoring app `'' @ py_format lib app @ ''` '' @
        ''of kind `'' @ py_format lib kind @ ''` '' @
        ''detected a problem in model endpoint ID `'' @ py_format lib ep @ ''` '' @
        ''at time `'' @ py_format lib start @ ''`.'' @ [CHR 0x0A] @
        [CHR 0x0A] @
        ''Result data:'' @ [CHR 0x0A] @
        ''Name: `'' @ py_format lib name @ ''`'' @ [CHR 0x0A] @
        ''Value: `'' @ py_format lib val @ ''`'' @ [CHR 0x0A] @
        ''Status: `'' @ py_format lib st @ ''`'' @ [CHR 0x0A] @
        ''Extra data: `'' @ py_format lib extra @ ''`''))))))))))"

definition notify :: "pylib \<Rightarrow> backends \<Rightarrow> Notifier \<Rightarrow> unit io" where
  "notify lib bk self =
     bindM (should_send_event self) (\<lambda>send.
     if \<not> send then returnM ()
     else bindM (generate_message lib self) (\<lambda>message.
          perform bk (Push message (notifier_severity self))))"

text \<open>\<open>ModelMonitoringWriter.do\<close>. The reconstructed event is a new dictionary object.\<close>

definition writer_do :: "pylib \<Rightarrow> backends \<Rightarrow> ModelMonitoringWriter \<Rightarrow> pyval \<Rightarrow> unit io" where
  "writer_do lib bk self raw =
     bindM (liftE (reconstruct_event lib raw)) (\<lambda>d.
     bindM (new_dict d) (\<lambda>event.
     bindM (update_tsdb lib bk self event) (\<lambda>_.
     bindM (update_kv_db lib bk self event) (\<lambda>_.
     notify lib bk (new_Notifier event)))))"

section \<open>The tag engine: \<open>TDEngineConnector\<close>\<close>

datatype WriterEventKind = METRIC | RESULT

datatype TDEngineSuperTables = APP_RESULTS | METRICS | PREDICTIONS

text \<open>
  Modelled from the spec: the values of the enum \<open>TDEngineSuperTables\<close> and of the
  remaining field names are not among the sources; the three supertables are results,
  metrics and predictions.
\<close>

definition supertable_name :: "TDEngineSuperTables \<Rightarrow> string" where
  "supertable_name t =
     (case t of APP_RESULTS \<Rightarrow> ''app_results'' | METRICS \<Rightarrow> ''metrics''
      | PREDICTIONS \<Rightarrow> ''predictions'')"

definition METRIC_VALUE :: string where "METRIC_VALUE = ''metric_value''"

record records_request =
  rq_table :: string
  rq_start :: string
  rq_end :: string
  rq_columns_to_filter :: "string list option"
  rq_filter_query :: string
  rq_interval :: string
  rq_limit :: int
  rq_agg :: "string list option"
  rq_sliding_window :: string
  rq_timestamp_column :: string
  rq_database :: string

text \<open>
  The statement builders of \<open>TDEngineSchema\<close> that the connector calls
  (\<open>_create_subtable_query\<close>, \<open>_insert_subtable_query\<close>, \<open>_get_records_query\<close>) are not among
  the sources: they are parameters, each giving a statement text or raising.
\<close>

record td_queries =
  create_subtable_query :: "TDEngineSuperTables \<Rightarrow> string \<Rightarrow> pydict \<Rightarrow> exn + string"
  insert_subtable_query :: "TDEngineSuperTables \<Rightarrow> string \<Rightarrow> pydict \<Rightarrow> exn + string"
  get_records_query :: "records_request \<Rightarrow> exn + string"

record TDEngineConnector =
  td_project :: string
  td_database :: string

text \<open>\<open>s.replace("-", "_")\<close>.\<close>

definition replace_hyphens :: "string \<Rightarrow> string" where
  "replace_hyphens s = map (\<lambda>c. if c = CHR ''-'' then CHR ''_'' else c) s"

text \<open>The subtable name of \<open>TDEngineConnector.write_application_event\<close>: the prefix
  \<open>f"{project}_{endpoint_id}_{application_name}_"\<close>, then \<open>f"{table_name}_" f"{name}"\<close> with
  the hyphens replaced.\<close>

definition subtable_name :: "pylib \<Rightarrow> string \<Rightarrow> pyval \<Rightarrow> pyval \<Rightarrow> pyval \<Rightarrow> string" where
  "subtable_name lib proj endpoint_id app name =
     (let table_name = proj @ ''_'' @ py_format lib endpoint_id @ ''_'' @ py_format lib app @ ''_''
      in replace_hyphens (table_name @ ''_'' @ py_format lib name))"

text \<open>\<open>TDEngineConnector.write_application_event\<close>: it reads and changes the caller's
  dictionary (no copy), then runs the two statements.\<close>

definition td_write_application_event ::
  "pylib \<Rightarrow> td_queries \<Rightarrow> backends \<Rightarrow> TDEngineConnector \<Rightarrow> addr \<Rightarrow> WriterEventKind \<Rightarrow> unit io" where
  "td_write_application_event lib q bk self event kind =
     bindM (obj_getitem event ENDPOINT_ID) (\<lambda>endpoint_id.
     bindM (obj_getitem event APPLICATION_NAME) (\<lambda>app.
     bindM (obj_setitem event PROJECT (PStr (td_project self))) (\<lambda>_.
     let table = (if kind = RESULT then APP_RESULTS else METRICS);
         name_key = (if kind = RESULT then RESULT_NAME else METRIC_NAME)
     in
     bindM (obj_getitem event name_key) (\<lambda>name.
     let table_name = subtable_name lib (td_project self) endpoint_id app name in
     bindM (read_dict event) (\<lambda>values.
     bindM (liftE (create_subtable_query q table table_name values)) (\<lambda>create_table_query.
     bindM (perform bk (TDExecute create_table_query)) (\<lambda>_.
     bindM (liftE (insert_subtable_query q table table_name values)) (\<lambda>insert_table_query.
     perform bk (TDExecute insert_table_query)))))))))"

text \<open>A data frame: its column names and its rows, each row a dictionary from column
  name to cell. \<open>pd.DataFrame(rows, columns=columns)\<close> raises when a row has another width.\<close>

record dataframe =
  df_columns :: "string list"
  df_records :: "pydict list"

definition DataFrame :: "pyval list list \<Rightarrow> string list \<Rightarrow> exn + dataframe" where
  "DataFrame rows cols =
     (if list_all (\<lambda>r. length r = length cols) rows
      then Inr \<lparr>df_columns = cols, df_records = map (zip cols) rows\<rparr>
      else Inl ValueError)"

text \<open>\<open>TDEngineConnector.get_records\<close>: the project predicate is appended to the caller's
  filter, and a \<open>QueryError\<close> of the backend is raised again as
  \<open>MLRunInvalidArgumentError\<close> with the backend's text.\<close>

definition get_records ::
  "td_queries \<Rightarrow> backends \<Rightarrow> TDEngineConnector \<Rightarrow> records_request \<Rightarrow> dataframe io" where
  "get_records q bk self rq =
     (let filter_query =
            (if rq_filter_query rq \<noteq> [] then rq_filter_query rq @ '' and '' else []) @
            ''project = '' @ [CHR 0x27] @ td_project self @ [CHR 0x27]
      in bindM (liftE (get_records_query q
                (rq\<lparr>rq_filter_query := filter_query, rq_database := td_database self\<rparr>)))
         (\<lambda>full_query w.
            case perform bk (TDQuery full_query) w of
              (Inl (QueryError e), w') \<Rightarrow>
                (Inl (MLRunInvalidArgumentError
                   (''Failed to query table '' @ rq_table rq @ '' in database '' @
                    td_database self @ '', '' @ e)), w')
            | (Inl e, w') \<Rightarrow> (Inl e, w')
            | (Inr _, w') \<Rightarrow>
                (case query_result bk full_query of
                   (names, rows) \<Rightarrow> (DataFrame rows names, w'))))"

record ModelEndpointMonitoringMetric =
  metric_app :: string
  metric_name :: string

datatype ModelEndpointMonitoringMetricType = METRIC_TYPE | RESULT_TYPE

datatype metric_outcome =
    ModelEndpointMonitoringMetricValues ModelEndpointMonitoringMetric "(pyval \<times> pyval) list"
  | ModelEndpointMonitoringResultValues ModelEndpointMonitoringMetric
      "(pyval \<times> pyval \<times> pyval) list"
  | ModelEndpointMonitoringMetricNoData ModelEndpointMonitoringMetric
      ModelEndpointMonitoringMetricType

definition cell :: "pydict \<Rightarrow> string \<Rightarrow> pyval" where
  "cell row col = (case map_of row col of None \<Rightarrow> PNone | Some v \<Rightarrow> v)"

definition rows_of_metric ::
  "string \<Rightarrow> dataframe \<Rightarrow> ModelEndpointMonitoringMetric \<Rightarrow> pydict list" where
  "rows_of_metric name_col df m =
     filter (\<lambda>row. map_of row APPLICATION_NAME = Some (PStr (metric_app m)) \<and>
                  map_of row name_col = Some (PStr (metric_name m))) (df_records df)"

text \<open>
  Modelled from the spec: \<open>df_to_metrics_values\<close> and \<open>df_to_results_values\<close> are methods of
  the base class \<open>TSDBConnector\<close>, which is not among the sources (the connector holds only
  a disabled copy in comments). They fold the tabular result into one value series per
  requested (application, name), and report a requested metric with no matching rows as a
  distinct no-data outcome rather than omitting it.
\<close>

definition df_to_metrics_values ::
  "dataframe \<Rightarrow> ModelEndpointMonitoringMetric list \<Rightarrow> string \<Rightarrow> metric_outcome list" where
  "df_to_metrics_values df metrics proj =
     map (\<lambda>m. let rows = rows_of_metric METRIC_NAME df m in
               if rows = [] then ModelEndpointMonitoringMetricNoData m METRIC_TYPE
               else ModelEndpointMonitoringMetricValues m
                      (map (\<lambda>row. (cell row END_INFER_TIME, cell row METRIC_VALUE)) rows))
         metrics"

definition df_to_results_values ::
  "dataframe \<Rightarrow> ModelEndpointMonitoringMetric list \<Rightarrow> string \<Rightarrow> metric_outcome list" where
  "df_to_results_values df metrics proj =
     map (\<lambda>m. let rows = rows_of_metric RESULT_NAME df m in
               if rows = [] then ModelEndpointMonitoringMetricNoData m RESULT_TYPE
               else ModelEndpointMonitoringResultValues m
                      (map (\<lambda>row. (cell row END_INFER_TIME, cell row RESULT_VALUE,
                                    cell row RESULT_STATUS)) rows))
         metrics"

text \<open>\<open>df[col] = pd.to_datetime(df[col])\<close>: the column must exist, and every cell is
  converted.\<close>

fun convert_column :: "pylib \<Rightarrow> string \<Rightarrow> pydict list \<Rightarrow> exn + pydict list" where
  "convert_column lib col [] = Inr []"
| "convert_column lib col (row # rows) =
     (case to_datetime lib (cell row col) of
        None \<Rightarrow> Inl ValueError
      | Some t \<Rightarrow> bindE (convert_column lib col rows) (\<lambda>rows'.
                   Inr (AList.update col t row # rows')))"

definition column_to_datetime :: "pylib \<Rightarrow> string \<Rightarrow> dataframe \<Rightarrow> exn + dataframe" where
  "column_to_datetime lib col df =
     (if col \<notin> set (df_columns df) then Inl (KeyError col)
      else bindE (convert_column lib col (df_records df)) (\<lambda>rows.
             Inr (df\<lparr>df_records := rows\<rparr>)))"

definition join_OR :: "string list \<Rightarrow> string" where
  "join_OR xs = concat (case xs of [] \<Rightarrow> [] | x # rest \<Rightarrow> x # map (\<lambda>y. '' OR '' @ y) rest)"

text \<open>\<open>TDEngineConnector.read_metrics_data\<close>. The keyword \<open>type\<close> is a text; the remaining
  arguments of \<open>get_records\<close> keep their defaults.\<close>

definition read_metrics_data ::
  "pylib \<Rightarrow> td_queries \<Rightarrow> backends \<Rightarrow> TDEngineConnector \<Rightarrow> string \<Rightarrow> string \<Rightarrow> string \<Rightarrow>
   ModelEndpointMonitoringMetric list \<Rightarrow> string \<Rightarrow> metric_outcome list io" where
  "read_metrics_data lib q bk self endpoint_id start end' metrics type' =
     (if type' \<noteq> ''metrics'' \<and> type' \<noteq> ''results'' then
        liftE (Inl (MLRunInvalidArgumentError
          (''Invalid type '' @ type' @ '', must be either 'metrics' or 'results'.'')))
      else
        let table = (if type' = ''metrics'' then METRICS else APP_RESULTS);
            name = (if type' = ''metrics'' then METRIC_NAME else RESULT_NAME);
            df_handler = (if type' = ''metrics'' then df_to_metrics_values
                          else df_to_results_values);
            list_of_metrics =
              map (\<lambda>metric. ''('' @ APPLICATION_NAME @ '' = '' @ [CHR 0x27] @ metric_app metric @
                     [CHR 0x27] @ '' AND '' @ name @ '' = '' @ [CHR 0x27] @ metric_name metric @
                     [CHR 0x27] @ '')'') metrics;
            filter_query = ''endpoint_id='' @ [CHR 0x27] @ endpoint_id @ [CHR 0x27] @ '' '' @
                           ''AND '' @ join_OR list_of_metrics
        in bindM (get_records q bk self
                    \<lparr>rq_table = supertable_name table, rq_start = start, rq_end = end',
                     rq_columns_to_filter = None, rq_filter_query = filter_query,
                     rq_interval = [], rq_limit = 0, rq_agg = None, rq_sliding_window = [],
                     rq_timestamp_column = END_INFER_TIME, rq_database = []\<rparr>) (\<lambda>df.
           bindM (liftE (column_to_datetime lib END_INFER_TIME df)) (\<lambda>df'.
           returnM (df_handler df' metrics (td_project self)))))"

section \<open>The relational metadata store: \<open>_ModelEndpointSQLStore\<close>\<close>




type_synonym query = "pydict \<Rightarrow> bool"







section \<open>The order of the side effects\<close>

text \<open>The three kinds of side effect of the writer, in the order the specification gives
  them: a time-series call is of phase 0, a call to the key-value metadata store of
  phase 1 and a notification of phase 2.\<close>

definition phase :: "call \<Rightarrow> nat" where
  "phase c =
     (case c of
        FramesWrite _ _ _ _ \<Rightarrow> 0
      | TDExecute _ \<Rightarrow> 0
      | TDQuery _ \<Rightarrow> 0
      | KVUpdate _ _ _ _ \<Rightarrow> 1
      | KVCreateSchema _ _ _ _ \<Rightarrow> 1
      | Push _ _ \<Rightarrow> 2)"

section \<open>Concrete inputs\<close>

text \<open>
  The event of the fixture in \<open>tests/model_monitoring/test_writer.py\<close> with a given status,
  the raw stream record that carries it with a serialised current-stats text, a library
  that knows the one JSON text \<open>{}\<close> and takes every text as a time, backends that accept
  every call, and a writer for the V3IO stores.
\<close>

definition fixture_event :: "pyval \<Rightarrow> pydict" where
  "fixture_event status =
     [(ENDPOINT_ID, PStr ''some-ep-id''),
      (START_INFER_TIME, PStr ''2023-09-19 14:26:06.501084''),
      (END_INFER_TIME, PStr ''2023-09-19 16:26:06.501084''),
      (APPLICATION_NAME, PStr ''dummy-app''),
      (RESULT_NAME, PStr ''data-drift-0''),
      (RESULT_KIND, PInt 0),
      (RESULT_VALUE, PFloat (8 / 25)),
      (RESULT_STATUS, status),
      (RESULT_EXTRA_DATA, PStr [])]"

definition fixture_raw_event :: "pyval \<Rightarrow> string \<Rightarrow> pyval" where
  "fixture_raw_event status stats = PDict (fixture_event status @ [(CURRENT_STATS, PStr stats)])"

text \<open>The event that reconstruction gives for that record when the stats text is \<open>{}\<close>.\<close>

definition fixture_reconstructed :: "pyval \<Rightarrow> pydict" where
  "fixture_reconstructed status =
     [(APPLICATION_NAME, PStr ''dummy-app''),
      (ENDPOINT_ID, PStr ''some-ep-id''),
      (START_INFER_TIME, PStr ''2023-09-19 14:26:06.501084''),
      (END_INFER_TIME, PStr ''2023-09-19 16:26:06.501084''),
      (RESULT_NAME, PStr ''data-drift-0''),
      (RESULT_VALUE, PFloat (8 / 25)),
      (RESULT_KIND, PInt 0),
      (RESULT_STATUS, status),
      (RESULT_EXTRA_DATA, PStr []),
      (CURRENT_STATS, PDict [])]"

definition fixture_lib :: pylib where
  "fixture_lib =
     \<lparr>loads_text = (\<lambda>s. if s = ''{}'' then Some (PDict []) else None),
      dumps = (\<lambda>v. Some ''<json>''),
      fromisoformat_text = (\<lambda>s. Some (PDatetime s)),
      to_datetime = (\<lambda>v. Some v),
      str_of = (\<lambda>v. ''<str>'')\<rparr>"

definition accepting_backends :: backends where
  "accepting_backends =
     \<lparr>raises = (\<lambda>c. None), status_code = (\<lambda>c. 200), query_result = (\<lambda>q. ([], []))\<rparr>"

definition fixture_writer :: ModelMonitoringWriter where
  "fixture_writer =
     \<lparr>project = ''TEST_PROJECT'', v3io_container = ''my_container'',
      v3io_path = ''my_table_path'',
      tsdb_configurations =
        \<lparr>tsdb_project = ''TEST_PROJECT'', tsdb_table = ''my_table_path'',
         tsdb_container = ''my_container''\<rparr>,
      kv_client = True, store_type_is_v3io_nosql = True\<rparr>"

definition empty_world :: world where
  "empty_world = \<lparr>heap = [], trace = [], kv_schemas = []\<rparr>"

definition fixture_world :: "pyval \<Rightarrow> world" where
  "fixture_world status = \<lparr>heap = [fixture_event status], trace = [], kv_schemas = []\<rparr>"

text \<open>Backends whose frames client raises the given exception on every write and which
  accept every other call.\<close>

definition frames_failing_backends :: "exn \<Rightarrow> backends" where
  "frames_failing_backends e =
     \<lparr>raises = (\<lambda>c. case c of FramesWrite _ _ _ _ \<Rightarrow> Some e | _ \<Rightarrow> None),
      status_code = (\<lambda>c. 200), query_result = (\<lambda>q. ([], []))\<rparr>"

text \<open>
  Inputs for the tag engine: statement builders that give fixed texts, and a backend
  whose metrics supertable holds one row, of application \<open>app1\<close> and metric \<open>m1\<close>.
\<close>

definition fixture_queries :: td_queries where
  "fixture_queries =
     \<lparr>create_subtable_query = (\<lambda>t name values. Inr (''CREATE '' @ name)),
      insert_subtable_query = (\<lambda>t name values. Inr (''INSERT '' @ name)),
      get_records_query = (\<lambda>rq. Inr (''SELECT '' @ rq_filter_query rq))\<rparr>"

definition fixture_connector :: TDEngineConnector where
  "fixture_connector = \<lparr>td_project = ''proj'', td_database = ''mlrun_model_monitoring''\<rparr>"

definition metrics_backends :: backends where
  "metrics_backends =
     \<lparr>raises = (\<lambda>c. None), status_code = (\<lambda>c. 200),
      query_result = (\<lambda>q.
        ([END_INFER_TIME, START_INFER_TIME, METRIC_VALUE, PROJECT, ENDPOINT_ID,
          APPLICATION_NAME, METRIC_NAME],
         [ [PStr ''2023-09-19 16:26:06'', PStr ''2023-09-19 14:26:06'', PFloat (1 / 2),
           PStr ''proj'', PStr ''ep-1'', PStr ''app1'', PStr ''m1''] ]))\<rparr>"





section \<open>Facts about the model\<close>

lemmas field_defs =
  APPLICATION_NAME_def ENDPOINT_ID_def START_INFER_TIME_def END_INFER_TIME_def
  RESULT_NAME_def RESULT_VALUE_def RESULT_KIND_def RESULT_STATUS_def
  RESULT_EXTRA_DATA_def CURRENT_STATS_def METRIC_NAME_def PROJECT_def

lemmas fixture_defs = fixture_event_def fixture_raw_event_def fixture_lib_def
  accepting_backends_def fixture_writer_def empty_world_def

subsection \<open>Event reconstruction\<close>

lemma bindE_simps:
  "bindE (Inl e) f = Inl e" "bindE (Inr x) f = f x"
  by (simp_all add: bindE_def)

lemma update_fresh: "k \<notin> fst ` set al \<Longrightarrow> AList.update k v al = al @ [(k, v)]"
  by (induction al) auto

lemma dict_comprehension_dict:
  "\<forall>k \<in> set keys. map_of d k \<noteq> None \<Longrightarrow> distinct keys \<Longrightarrow> set keys \<inter> fst ` set acc = {} \<Longrightarrow>
   dict_comprehension (PDict d) keys acc = Inr (acc @ map (\<lambda>k. (k, the (map_of d k))) keys)"
proof (induction keys arbitrary: acc)
  case Nil
  then show ?case by simp
next
  case (Cons k keys)
  from Cons.prems obtain v where v: "map_of d k = Some v" by auto
  have fresh: "k \<notin> fst ` set acc" using Cons.prems by auto
  have "set keys \<inter> fst ` set (acc @ [(k, v)]) = {}" using Cons.prems by auto
  with Cons.IH[of "acc @ [(k, v)]"] Cons.prems
  have "dict_comprehension (PDict d) keys (acc @ [(k, v)]) =
        Inr ((acc @ [(k, v)]) @ map (\<lambda>k. (k, the (map_of d k))) keys)" by simp
  then show ?case using v fresh by (simp add: py_getitem_def update_fresh)
qed

lemma dict_comprehension_missing:
  "\<exists>k \<in> set keys. map_of d k = None \<Longrightarrow>
   \<exists>k. dict_comprehension (PDict d) keys acc = Inl (KeyError k)"
proof (induction keys arbitrary: acc)
  case Nil
  then show ?case by simp
next
  case (Cons k keys)
  show ?case
  proof (cases "map_of d k")
    case None
    then show ?thesis by (simp add: py_getitem_def)
  next
    case (Some v)
    with Cons.prems have "\<exists>k \<in> set keys. map_of d k = None" by auto
    from Cons.IH[OF this] Some show ?thesis by (simp add: py_getitem_def)
  qed
qed

lemma dict_comprehension_not_dict:
  "\<forall>d. event \<noteq> PDict d \<Longrightarrow> keys \<noteq> [] \<Longrightarrow> dict_comprehension event keys acc = Inl TypeError"
  by (cases keys; cases event) (auto simp: py_getitem_def)

lemma distinct_WriterEvent_list: "distinct WriterEvent_list"
  by (simp add: WriterEvent_list_def field_defs)

text \<open>
  Claim C4. Event reconstruction: a mapping that holds every declared writer-event field,
  with a current-stats text that \<open>json.loads\<close> parses, is reconstructed to the event of the
  declared fields in their order, its current-stats field the parsed object; a mapping
  that misses a declared field is rejected with \<open>_WriterEventValueError\<close> (incomplete
  event); an input that is not a mapping is rejected with \<open>_WriterEventTypeError\<close>
  (malformed event).
\<close>

theorem reconstruct_event_cases:
  "(map_of d CURRENT_STATS = Some (PStr s) \<and> loads_text lib s = Some v \<and>
    (\<forall>k \<in> set WriterEvent_list. map_of d k \<noteq> None) \<longrightarrow>
      reconstruct_event lib (PDict d) =
        Inr (map (\<lambda>k. (k, if k = CURRENT_STATS then v else the (map_of d k))) WriterEvent_list)) \<and>
   ((\<exists>k \<in> set WriterEvent_list. map_of d' k = None) \<longrightarrow>
      (\<exists>m. reconstruct_event lib (PDict d') = Inl (WriterEventValueError m))) \<and>
   ((\<forall>d0. raw \<noteq> PDict d0) \<longrightarrow>
      (\<exists>m. reconstruct_event lib raw = Inl (WriterEventTypeError m)))"
proof (intro conjI impI)
  assume a: "map_of d CURRENT_STATS = Some (PStr s) \<and> loads_text lib s = Some v \<and>
    (\<forall>k \<in> set WriterEvent_list. map_of d k \<noteq> None)"
  then have "dict_comprehension (PDict d) WriterEvent_list [] =
      Inr ([] @ map (\<lambda>k. (k, the (map_of d k))) WriterEvent_list)"
    by (intro dict_comprehension_dict) (simp_all add: distinct_WriterEvent_list)
  with a show "reconstruct_event lib (PDict d) =
        Inr (map (\<lambda>k. (k, if k = CURRENT_STATS then v else the (map_of d k))) WriterEvent_list)"
    by (simp add: reconstruct_event_def reconstruct_event_body_def bindE_simps py_getitem_def
        json_loads_def WriterEvent_list_def field_defs)
next
  assume "\<exists>k \<in> set WriterEvent_list. map_of d' k = None"
  from dict_comprehension_missing[OF this, of "[]"]
  show "\<exists>m. reconstruct_event lib (PDict d') = Inl (WriterEventValueError m)"
    by (auto simp: reconstruct_event_def reconstruct_event_body_def bindE_simps)
next
  assume "\<forall>d0. raw \<noteq> PDict d0"
  then have "dict_comprehension raw WriterEvent_list [] = Inl TypeError"
    by (intro dict_comprehension_not_dict) (simp_all add: WriterEvent_list_def)
  then show "\<exists>m. reconstruct_event lib raw = Inl (WriterEventTypeError m)"
    by (simp add: reconstruct_event_def reconstruct_event_body_def bindE_simps)
qed

theorem reconstruct_event_cases_witness:
  "(\<exists>ev. reconstruct_event fixture_lib (fixture_raw_event (PInt 0) ''{}'') = Inr ev \<and>
         map_of ev CURRENT_STATS = Some (PDict []) \<and>
         map_of ev ENDPOINT_ID = Some (PStr ''some-ep-id'')) \<and>
   (\<exists>m. reconstruct_event fixture_lib (PDict [(ENDPOINT_ID, PStr ''ep2211'')])
          = Inl (WriterEventValueError m)) \<and>
   (\<exists>m. reconstruct_event fixture_lib (PStr ''key1:val1,key2:val2'')
          = Inl (WriterEventTypeError m))"
  using reconstruct_event_cases[of "fixture_event (PInt 0) @ [(CURRENT_STATS, PStr ''{}'')]"
      "''{}''" fixture_lib "PDict []" "[(ENDPOINT_ID, PStr ''ep2211'')]"
      "PStr ''key1:val1,key2:val2''"]
  by (simp add: fixture_defs WriterEvent_list_def field_defs)

text \<open>
  Claim C5. A record that holds every declared field and whose current-stats field is a
  text that is not valid JSON should be rejected with one of the writer's event errors.
  The code does not do so: \<open>json.loads\<close> raises \<open>JSONDecodeError\<close>, which neither handler
  of \<open>_reconstruct_event\<close> catches, and it leaves the function as it is.
\<close>

theorem reconstruct_event_invalid_json:
  "map_of d CURRENT_STATS = Some (PStr s) \<and> loads_text lib s = None \<and>
   (\<forall>k \<in> set WriterEvent_list. map_of d k \<noteq> None) \<longrightarrow>
     reconstruct_event lib (PDict d) = Inl JSONDecodeError \<and>
     \<not> is_WriterEventError JSONDecodeError"
proof
  assume a: "map_of d CURRENT_STATS = Some (PStr s) \<and> loads_text lib s = None \<and>
    (\<forall>k \<in> set WriterEvent_list. map_of d k \<noteq> None)"
  then have "dict_comprehension (PDict d) WriterEvent_list [] =
      Inr ([] @ map (\<lambda>k. (k, the (map_of d k))) WriterEvent_list)"
    by (intro dict_comprehension_dict) (simp_all add: distinct_WriterEvent_list)
  with a show "reconstruct_event lib (PDict d) = Inl JSONDecodeError \<and>
     \<not> is_WriterEventError JSONDecodeError"
    by (simp add: reconstruct_event_def reconstruct_event_body_def bindE_simps py_getitem_def
        json_loads_def is_WriterEventError_def)
qed

theorem reconstruct_event_invalid_json_witness:
  "reconstruct_event fixture_lib (fixture_raw_event (PInt 0) ''{'') = Inl JSONDecodeError \<and>
   \<not> is_WriterEventError JSONDecodeError"
  using reconstruct_event_invalid_json[of "fixture_event (PInt 0) @ [(CURRENT_STATS, PStr ''{'')]"
      "''{''" fixture_lib]
  by (simp add: fixture_defs WriterEvent_list_def field_defs)

subsection \<open>The notifier\<close>

lemma reconstruct_event_Inr_keys:
  assumes "reconstruct_event lib raw = Inr d"
  shows "map fst d = WriterEvent_list"
proof (cases "\<exists>d0. raw = PDict d0")
  case False
  then have "dict_comprehension raw WriterEvent_list [] = Inl TypeError"
    by (intro dict_comprehension_not_dict) (simp_all add: WriterEvent_list_def)
  with assms show ?thesis
    by (simp add: reconstruct_event_def reconstruct_event_body_def bindE_simps)
next
  case True
  then obtain d0 where raw: "raw = PDict d0" by blast
  show ?thesis
  proof (cases "\<exists>k \<in> set WriterEvent_list. map_of d0 k = None")
    case True
    from dict_comprehension_missing[OF this, of "[]"] assms raw show ?thesis
      by (auto simp: reconstruct_event_def reconstruct_event_body_def bindE_simps)
  next
    case False
    then have dc: "dict_comprehension (PDict d0) WriterEvent_list [] =
      Inr ([] @ map (\<lambda>k. (k, the (map_of d0 k))) WriterEvent_list)"
      by (intro dict_comprehension_dict) (simp_all add: distinct_WriterEvent_list)
    have in_list: "CURRENT_STATS \<in> set WriterEvent_list"
      by (simp add: WriterEvent_list_def)
    from assms raw dc obtain parsed where
      "d = AList.update CURRENT_STATS parsed (map (\<lambda>k. (k, the (map_of d0 k))) WriterEvent_list)"
      by (auto simp: reconstruct_event_def reconstruct_event_body_def bindE_def
          split: sum.splits exn.splits)
    then show ?thesis using in_list by (simp add: update_keys comp_def)
  qed
qed

lemma reconstruct_event_Inr_present:
  assumes "reconstruct_event lib raw = Inr d" and "k \<in> set WriterEvent_list"
  shows "\<exists>v. map_of d k = Some v"
proof -
  have "k \<in> fst ` set d" using reconstruct_event_Inr_keys[OF assms(1)] assms(2)
    by (metis set_map)
  then show ?thesis by (metis domD dom_map_of_conv_image_fst)
qed

lemma obj_getitem_heap:
  "heap_get w a = Some d \<Longrightarrow> obj_getitem a k w = (dict_getitem d k, w)"
  by (simp add: obj_getitem_def bindM_def read_dict_def liftE_def)

lemma bindM_Inr: "m w = (Inr x, w') \<Longrightarrow> bindM m f w = f x w'"
  by (simp add: bindM_def)

lemma bindM_Inl: "m w = (Inl e, w') \<Longrightarrow> bindM m f w = (Inl e, w')"
  by (simp add: bindM_def)

lemma generate_message_present:
  assumes "heap_get w a = Some d" and "\<forall>k \<in> set WriterEvent_list. \<exists>v. map_of d k = Some v"
  shows "\<exists>m. generate_message lib (new_Notifier a) w = (Inr m, w)"
proof -
  from assms(2) obtain v1 v2 v3 v4 v5 v6 v7 v8 where
    "map_of d APPLICATION_NAME = Some v1" "map_of d RESULT_KIND = Some v2"
    "map_of d ENDPOINT_ID = Some v3" "map_of d START_INFER_TIME = Some v4"
    "map_of d RESULT_NAME = Some v5" "map_of d RESULT_VALUE = Some v6"
    "map_of d RESULT_STATUS = Some v7" "map_of d RESULT_EXTRA_DATA = Some v8"
    unfolding WriterEvent_list_def by (auto simp del: map_of_eq_Some_iff)
  then show ?thesis
    by (simp add: generate_message_def new_Notifier_def obj_getitem_heap[OF assms(1)]
        dict_getitem_def bindM_def returnM_def)
qed

text \<open>
  Claim C1. For every reconstructed result event, the notifier delivers if and only if
  the comparison of the event's status with \<open>detected\<close> is true (for an integer status:
  if and only if it is at least 2). When it fires, exactly one call is made to the
  pusher, with severity \<open>WARNING\<close>; otherwise no call is made.
\<close>

theorem notify_threshold:
  assumes "reconstruct_event lib raw = Inr d" and "heap_get w a = Some d"
  shows "\<exists>st. map_of d RESULT_STATUS = Some st \<and>
     (if py_ge_int st detected = Inr True
      then \<exists>m. generate_message lib (new_Notifier a) w = (Inr m, w) \<and>
               trace (snd (notify lib bk (new_Notifier a) w)) =
                 trace w @ [(Push m WARNING, raises bk (Push m WARNING))]
      else trace (snd (notify lib bk (new_Notifier a) w)) = trace w) \<and>
     (\<forall>i. st = PInt i \<longrightarrow> (py_ge_int st detected = Inr True \<longleftrightarrow> 2 \<le> i))"
proof -
  have present: "\<forall>k \<in> set WriterEvent_list. \<exists>v. map_of d k = Some v"
    using reconstruct_event_Inr_present[OF assms(1)] by blast
  then obtain st where st: "map_of d RESULT_STATUS = Some st"
    unfolding WriterEvent_list_def by (auto simp del: map_of_eq_Some_iff)
  from generate_message_present[OF assms(2) present]
  obtain m where m: "generate_message lib (new_Notifier a) w = (Inr m, w)" by blast
  have send: "should_send_event (new_Notifier a) w = (py_ge_int st detected, w)"
    using st by (simp add: should_send_event_def new_Notifier_def obj_getitem_heap[OF assms(2)]
        dict_getitem_def bindM_def liftE_def)
  have fire: "py_ge_int st detected = Inr True \<Longrightarrow>
      trace (snd (notify lib bk (new_Notifier a) w)) =
        trace w @ [(Push m WARNING, raises bk (Push m WARNING))]"
    using send m
    by (simp add: notify_def bindM_def perform_def new_Notifier_def split: option.splits)
  have quiet: "py_ge_int st detected \<noteq> Inr True \<Longrightarrow>
      trace (snd (notify lib bk (new_Notifier a) w)) = trace w"
    using send by (cases "py_ge_int st detected") (auto simp: notify_def bindM_def returnM_def)
  have ints: "\<forall>i. st = PInt i \<longrightarrow> (py_ge_int st detected = Inr True \<longleftrightarrow> 2 \<le> i)"
    by (simp add: py_ge_int_def detected_def)
  show ?thesis using st m fire quiet ints by auto
qed

lemma reconstruct_fixture:
  "reconstruct_event fixture_lib (fixture_raw_event status ''{}'') =
     Inr (fixture_reconstructed status)"
  by (simp add: reconstruct_event_def reconstruct_event_body_def bindE_simps py_getitem_def
      json_loads_def fixture_defs fixture_reconstructed_def WriterEvent_list_def field_defs)

theorem notify_threshold_witness:
  "(\<exists>m. trace (snd (notify fixture_lib accepting_backends (new_Notifier 0)
           \<lparr>heap = [fixture_reconstructed (PInt 2)], trace = [], kv_schemas = []\<rparr>)) =
         [(Push m WARNING, None)]) \<and>
   trace (snd (notify fixture_lib accepting_backends (new_Notifier 0)
           \<lparr>heap = [fixture_reconstructed (PInt 1)], trace = [], kv_schemas = []\<rparr>)) = [] \<and>
   trace (snd (notify fixture_lib accepting_backends (new_Notifier 0)
           \<lparr>heap = [fixture_reconstructed (PInt 0)], trace = [], kv_schemas = []\<rparr>)) = []"
proof -
  have h: "\<And>st. heap_get \<lparr>heap = [fixture_reconstructed st], trace = [], kv_schemas = []\<rparr> 0
             = Some (fixture_reconstructed st)"
    by (simp add: heap_get_def)
  have st: "\<And>st. map_of (fixture_reconstructed st) RESULT_STATUS = Some st"
    by (simp add: fixture_reconstructed_def field_defs)
  from notify_threshold[OF reconstruct_fixture h, of "PInt 2" accepting_backends]
       notify_threshold[OF reconstruct_fixture h, of "PInt 1" accepting_backends]
       notify_threshold[OF reconstruct_fixture h, of "PInt 0" accepting_backends]
  show ?thesis
    by (auto simp: st py_ge_int_def detected_def accepting_backends_def)
qed

subsection \<open>Subtable names of the tag engine\<close>

lemma replace_hyphens_clean: "CHR ''-'' \<notin> set s \<Longrightarrow> replace_hyphens s = s"
  by (induction s) (auto simp: replace_hyphens_def)

lemma split_at_separator:
  "c \<notin> set x \<Longrightarrow> c \<notin> set x' \<Longrightarrow> x @ c # r = x' @ c # r' \<Longrightarrow> x = x' \<and> r = r'"
proof (induction x arbitrary: x')
  case Nil
  then show ?case by (cases x') auto
next
  case (Cons a x)
  then show ?case by (cases x') auto
qed

text \<open>
  Claim C2, as stated, fails: the subtable name is a function of the tuple (equal tuples
  give the same name), yet it is not injective. The delimiter is an underscore, which a
  component may contain, and a hyphen is replaced by an underscore: the endpoint
  \<open>a_b\<close> with application \<open>c\<close> and the endpoint \<open>a\<close> with application \<open>b_c\<close> get one name.
\<close>

theorem subtable_name_collision:
  "(''p'', ''a_b'', ''c'', ''n'') \<noteq> (''p'', ''a'', ''b_c'', ''n'') \<and>
   subtable_name fixture_lib ''p'' (PStr ''a_b'') (PStr ''c'') (PStr ''n'') =
   subtable_name fixture_lib ''p'' (PStr ''a'') (PStr ''b_c'') (PStr ''n'')"
  by (simp add: subtable_name_def py_format_def replace_hyphens_def)

text \<open>
  Claim C2, amended. The subtable name is deterministic, and it is injective on the
  tuples whose project, endpoint id and application name contain neither an underscore
  nor a hyphen and whose metric or result name contains no hyphen: there two names are
  equal if and only if the tuples are.
\<close>

theorem subtable_name_injective_on_clean:
  assumes "\<forall>x \<in> {p, e, a, p', e', a'}. CHR ''_'' \<notin> set x \<and> CHR ''-'' \<notin> set x"
    and "CHR ''-'' \<notin> set n" and "CHR ''-'' \<notin> set n'"
  shows "subtable_name lib p (PStr e) (PStr a) (PStr n) =
         subtable_name lib p' (PStr e') (PStr a') (PStr n') \<longleftrightarrow>
         (p, e, a, n) = (p', e', a', n')"
proof
  assume eq: "subtable_name lib p (PStr e) (PStr a) (PStr n) =
              subtable_name lib p' (PStr e') (PStr a') (PStr n')"
  have clean: "CHR ''-'' \<notin> set (p @ ''_'' @ e @ ''_'' @ a @ ''_'' @ ''_'' @ n)"
       "CHR ''-'' \<notin> set (p' @ ''_'' @ e' @ ''_'' @ a' @ ''_'' @ ''_'' @ n')"
    using assms by auto
  from eq have 1: "p @ CHR ''_'' # (e @ CHR ''_'' # (a @ CHR ''_'' # (CHR ''_'' # n))) =
                   p' @ CHR ''_'' # (e' @ CHR ''_'' # (a' @ CHR ''_'' # (CHR ''_'' # n')))"
    using replace_hyphens_clean[OF clean(1)] replace_hyphens_clean[OF clean(2)]
    by (simp add: subtable_name_def py_format_def)
  from assms(1) have us: "CHR ''_'' \<notin> set p" "CHR ''_'' \<notin> set p'" "CHR ''_'' \<notin> set e"
    "CHR ''_'' \<notin> set e'" "CHR ''_'' \<notin> set a" "CHR ''_'' \<notin> set a'" by auto
  from split_at_separator[OF us(1) us(2) 1]
  have p: "p = p'" and 2: "e @ CHR ''_'' # (a @ CHR ''_'' # (CHR ''_'' # n)) =
                           e' @ CHR ''_'' # (a' @ CHR ''_'' # (CHR ''_'' # n'))" by auto
  from split_at_separator[OF us(3) us(4) 2]
  have e: "e = e'" and 3: "a @ CHR ''_'' # (CHR ''_'' # n) = a' @ CHR ''_'' # (CHR ''_'' # n')"
    by auto
  from split_at_separator[OF us(5) us(6) 3]
  have "a = a'" and "n = n'" by auto
  with p e show "(p, e, a, n) = (p', e', a', n')" by simp
next
  assume "(p, e, a, n) = (p', e', a', n')"
  then show "subtable_name lib p (PStr e) (PStr a) (PStr n) =
             subtable_name lib p' (PStr e') (PStr a') (PStr n')" by simp
qed

theorem subtable_name_injective_on_clean_witness:
  "subtable_name fixture_lib ''proj'' (PStr ''ep1'') (PStr ''app'') (PStr ''data_drift'') \<noteq>
   subtable_name fixture_lib ''proj'' (PStr ''ep2'') (PStr ''app'') (PStr ''data_drift'') \<and>
   subtable_name fixture_lib ''proj'' (PStr ''ep1'') (PStr ''app'') (PStr ''data_drift'') =
     ''proj_ep1_app__data_drift''"
proof -
  have "subtable_name fixture_lib ''proj'' (PStr ''ep1'') (PStr ''app'') (PStr ''data_drift'') =
        subtable_name fixture_lib ''proj'' (PStr ''ep2'') (PStr ''app'') (PStr ''data_drift'') \<longleftrightarrow>
        (''proj'', ''ep1'', ''app'', ''data_drift'') = (''proj'', ''ep2'', ''app'', ''data_drift'')"
    by (rule subtable_name_injective_on_clean) simp_all
  moreover have "subtable_name fixture_lib ''proj'' (PStr ''ep1'') (PStr ''app'')
      (PStr ''data_drift'') = ''proj_ep1_app__data_drift''"
    by (simp add: subtable_name_def py_format_def replace_hyphens_def)
  ultimately show ?thesis by simp
qed

subsection \<open>The frames write and the key-value update on the heap\<close>

lemma heap_get_new: "heap_get (w\<lparr>heap := heap w @ [d]\<rparr>) (length (heap w)) = Some d"
  by (simp add: heap_get_def)

lemma write_application_event_run:
  assumes "heap_get w a = Some d"
  shows "write_application_event lib bk self a w =
     (case bindE (dict_getitem d END_INFER_TIME) (fromisoformat lib) of
        Inl e \<Rightarrow> (Inl e, w\<lparr>heap := heap w @ [d]\<rparr>)
      | Inr t \<Rightarrow>
          (case dict_delitem (AList.update END_INFER_TIME t d) RESULT_EXTRA_DATA of
             Inl e \<Rightarrow> (Inl e, w\<lparr>heap := heap w @ [AList.update END_INFER_TIME t d]\<rparr>)
           | Inr row \<Rightarrow>
               (let c = FramesWrite TSDB_BE (tsdb_table self) [row]
                          [END_INFER_TIME, ENDPOINT_ID, APPLICATION_NAME, RESULT_NAME];
                    w' = w\<lparr>heap := heap w @ [row], trace := trace w @ [(c, raises bk c)]\<rparr>
                in case raises bk c of
                     None \<Rightarrow> (Inr (), w')
                   | Some (V3IOFramesError msg) \<Rightarrow> (Inr (), w')
                   | Some e \<Rightarrow> (Inl e, w'))))"
  using assms
  by (auto simp: write_application_event_def obj_copy_def obj_getitem_def obj_setitem_def
      obj_delitem_def bindM_def bindE_def read_dict_def new_dict_def write_dict_def liftE_def
      heap_get_def except_V3IOFramesError_def perform_def Let_def
      split: sum.splits option.splits exn.splits)

lemma generate_kv_schema_post:
  assumes "generate_kv_schema lib bk self endpoint_id w = (r, w')"
  shows "heap w' = heap w \<and>
     (trace w' = trace w \<and> (\<exists>e. r = Inl e) \<or>
      (\<exists>c out. trace w' = trace w @ [(c, out)] \<and> phase c = 1 \<and> (r = Inr () \<longrightarrow> out = None)))"
  using assms
  by (auto simp: generate_kv_schema_def bindM_def liftE_def perform_def Let_def phase_def
      str_add_def split: sum.splits option.splits pyval.splits if_splits)

lemma update_kv_db_heap:
  assumes "heap_get w a = Some d"
  shows "\<exists>d'. heap (snd (update_kv_db lib bk self a w)) = heap w @ [d']"
proof -
  have gen: "\<And>v w0. heap (snd (generate_kv_schema lib bk self v w0)) = heap w0"
    using generate_kv_schema_post by (metis prod.collapse)
  show ?thesis using assms
    by (auto simp: update_kv_db_def obj_copy_def obj_pop_def bindM_def bindE_def read_dict_def
      new_dict_def write_dict_def liftE_def returnM_def heap_get_def perform_def dict_pop_def gen
      split: sum.splits option.splits if_splits prod.splits)
qed


lemma heap_get_prefix:
  "heap_get w a = Some d \<Longrightarrow> heap w' = heap w @ xs \<Longrightarrow> heap_get w' a = Some d"
  by (auto simp: heap_get_def nth_append split: if_splits)

lemma write_application_event_heap:
  assumes "heap_get w a = Some d"
  shows "\<exists>d'. heap (snd (write_application_event lib bk self a w)) = heap w @ [d']"
  by (simp add: write_application_event_run[OF assms] Let_def
      split: sum.splits option.splits exn.splits)

lemma update_kv_db_pops:
  assumes "heap_get w a = Some d"
    and "map_of d ENDPOINT_ID \<noteq> None" and "map_of d APPLICATION_NAME \<noteq> None"
    and "map_of d RESULT_NAME \<noteq> None"
  shows "heap (snd (update_kv_db lib bk self a w)) =
         heap w @ [AList.delete RESULT_NAME (AList.delete APPLICATION_NAME
                     (AList.delete ENDPOINT_ID d))]"
proof -
  have gen: "\<And>v w0. heap (snd (generate_kv_schema lib bk self v w0)) = heap w0"
    using generate_kv_schema_post by (metis prod.collapse)
  have ne: "APPLICATION_NAME \<noteq> ENDPOINT_ID" "RESULT_NAME \<noteq> ENDPOINT_ID"
    "RESULT_NAME \<noteq> APPLICATION_NAME" by (simp_all add: field_defs)
  show ?thesis using assms ne
    by (auto simp: update_kv_db_def obj_copy_def obj_pop_def bindM_def bindE_def read_dict_def
      new_dict_def write_dict_def liftE_def returnM_def heap_get_def perform_def dict_pop_def gen
      split: sum.splits option.splits if_splits prod.splits)
qed

text \<open>
  Claim C10. The key-value update of the writer and the frames write work on a copy of
  the event: after \<open>_update_kv_db\<close> and after the frames \<open>write_application_event\<close> the
  caller's dictionary, and every other object the heap held, is as it was, whatever the
  outcome. The three keys are popped from the copy, and the extra data is deleted and the
  end time converted in the copy, which is the one new object.
\<close>

theorem event_copy_untouched:
  assumes "heap_get w a = Some d"
  shows "heap_get (snd (update_kv_db lib bk self a w)) a = Some d \<and>
         heap_get (snd (write_application_event lib bk store a w)) a = Some d \<and>
         take (length (heap w)) (heap (snd (update_kv_db lib bk self a w))) = heap w \<and>
         take (length (heap w)) (heap (snd (write_application_event lib bk store a w))) = heap w \<and>
         (map_of d ENDPOINT_ID \<noteq> None \<and> map_of d APPLICATION_NAME \<noteq> None \<and>
          map_of d RESULT_NAME \<noteq> None \<longrightarrow>
            heap (snd (update_kv_db lib bk self a w)) =
              heap w @ [AList.delete RESULT_NAME (AList.delete APPLICATION_NAME
                          (AList.delete ENDPOINT_ID d))]) \<and>
         (map_of d END_INFER_TIME = Some (PStr s) \<and> fromisoformat_text lib s = Some t \<and>
          map_of d RESULT_EXTRA_DATA \<noteq> None \<longrightarrow>
            heap (snd (write_application_event lib bk store a w)) =
              heap w @ [AList.delete RESULT_EXTRA_DATA (AList.update END_INFER_TIME t d)])"
proof -
  from update_kv_db_heap[OF assms, of lib bk self]
  obtain d1 where kv: "heap (snd (update_kv_db lib bk self a w)) = heap w @ [d1]" by blast
  from write_application_event_heap[OF assms, of lib bk store]
  obtain d2 where ts: "heap (snd (write_application_event lib bk store a w)) = heap w @ [d2]"
    by blast
  have 1: "heap_get (snd (update_kv_db lib bk self a w)) a = Some d"
    by (rule heap_get_prefix[OF assms kv])
  have 2: "heap_get (snd (write_application_event lib bk store a w)) a = Some d"
    by (rule heap_get_prefix[OF assms ts])
  have 3: "take (length (heap w)) (heap (snd (update_kv_db lib bk self a w))) = heap w"
    by (simp add: kv)
  have 4: "take (length (heap w)) (heap (snd (write_application_event lib bk store a w))) = heap w"
    by (simp add: ts)
  have 5: "map_of d ENDPOINT_ID \<noteq> None \<and> map_of d APPLICATION_NAME \<noteq> None \<and>
          map_of d RESULT_NAME \<noteq> None \<longrightarrow>
            heap (snd (update_kv_db lib bk self a w)) =
              heap w @ [AList.delete RESULT_NAME (AList.delete APPLICATION_NAME
                          (AList.delete ENDPOINT_ID d))]"
    using update_kv_db_pops[OF assms] by blast
  have 6: "map_of d END_INFER_TIME = Some (PStr s) \<and> fromisoformat_text lib s = Some t \<and>
          map_of d RESULT_EXTRA_DATA \<noteq> None \<longrightarrow>
            heap (snd (write_application_event lib bk store a w)) =
              heap w @ [AList.delete RESULT_EXTRA_DATA (AList.update END_INFER_TIME t d)]"
  proof
    assume h: "map_of d END_INFER_TIME = Some (PStr s) \<and> fromisoformat_text lib s = Some t \<and>
          map_of d RESULT_EXTRA_DATA \<noteq> None"
    have ne: "RESULT_EXTRA_DATA \<noteq> END_INFER_TIME" by (simp add: field_defs)
    from h ne show "heap (snd (write_application_event lib bk store a w)) =
              heap w @ [AList.delete RESULT_EXTRA_DATA (AList.update END_INFER_TIME t d)]"
      by (auto simp: write_application_event_run[OF assms] Let_def bindE_def dict_getitem_def
          fromisoformat_def dict_delitem_def update_conv'
          split: sum.splits option.splits exn.splits)
  qed
  from 1 2 3 4 5 6 show ?thesis by blast
qed


theorem event_copy_untouched_witness:
  "heap_get (snd (update_kv_db fixture_lib accepting_backends fixture_writer 0
       (fixture_world (PInt 0)))) 0 = Some (fixture_event (PInt 0)) \<and>
   heap_get (snd (write_application_event fixture_lib accepting_backends
       (tsdb_configurations fixture_writer) 0 (fixture_world (PInt 0)))) 0
     = Some (fixture_event (PInt 0)) \<and>
   map fst (heap (snd (update_kv_db fixture_lib accepting_backends fixture_writer 0
       (fixture_world (PInt 0)))) ! 1) =
     [START_INFER_TIME, END_INFER_TIME, RESULT_KIND, RESULT_VALUE, RESULT_STATUS,
      RESULT_EXTRA_DATA] \<and>
   map fst (heap (snd (write_application_event fixture_lib accepting_backends
       (tsdb_configurations fixture_writer) 0 (fixture_world (PInt 0)))) ! 1) =
     [ENDPOINT_ID, START_INFER_TIME, END_INFER_TIME, APPLICATION_NAME, RESULT_NAME,
      RESULT_KIND, RESULT_VALUE, RESULT_STATUS]"
proof -
  have h: "heap_get (fixture_world (PInt 0)) 0 = Some (fixture_event (PInt 0))"
    by (simp add: heap_get_def fixture_world_def)
  from event_copy_untouched[OF h, of fixture_lib accepting_backends fixture_writer
      "tsdb_configurations fixture_writer" "''2023-09-19 16:26:06.501084''"
      "PDatetime ''2023-09-19 16:26:06.501084''"]
  show ?thesis
    by (simp add: fixture_defs fixture_world_def field_defs AList.delete_eq)
qed

text \<open>
  Claim C7. The frames write never sends the extra-data field: whatever the event, the
  store makes at most one write call, with one row that has no extra-data field, indexed
  by end inference time, endpoint id, application name and result name. For an event
  that holds the extra data and an end time that parses, exactly one such call is made,
  and its row is the event without the extra data and with the end time converted.
\<close>

theorem frames_row_omits_extra_data:
  assumes "heap_get w a = Some d"
  shows "(\<exists>ext. trace (snd (write_application_event lib bk store a w)) = trace w @ ext \<and>
           (ext = [] \<or>
            (\<exists>row out. ext = [(FramesWrite TSDB_BE (tsdb_table store) [row]
                 [END_INFER_TIME, ENDPOINT_ID, APPLICATION_NAME, RESULT_NAME], out)] \<and>
               map_of row RESULT_EXTRA_DATA = None))) \<and>
         (map_of d END_INFER_TIME = Some (PStr s) \<and> fromisoformat_text lib s = Some t \<and>
          map_of d RESULT_EXTRA_DATA \<noteq> None \<longrightarrow>
            (let row = AList.delete RESULT_EXTRA_DATA (AList.update END_INFER_TIME t d);
                 c = FramesWrite TSDB_BE (tsdb_table store) [row]
                       [END_INFER_TIME, ENDPOINT_ID, APPLICATION_NAME, RESULT_NAME]
             in trace (snd (write_application_event lib bk store a w)) =
                  trace w @ [(c, raises bk c)] \<and>
                map_of row RESULT_EXTRA_DATA = None \<and>
                map_of row END_INFER_TIME = Some t \<and>
                (\<forall>k. k \<noteq> RESULT_EXTRA_DATA \<and> k \<noteq> END_INFER_TIME \<longrightarrow>
                     map_of row k = map_of d k)))"
proof -
  have ne: "RESULT_EXTRA_DATA \<noteq> END_INFER_TIME" by (simp add: field_defs)
  have safety: "\<exists>ext. trace (snd (write_application_event lib bk store a w)) = trace w @ ext \<and>
           (ext = [] \<or>
            (\<exists>row out. ext = [(FramesWrite TSDB_BE (tsdb_table store) [row]
                 [END_INFER_TIME, ENDPOINT_ID, APPLICATION_NAME, RESULT_NAME], out)] \<and>
               map_of row RESULT_EXTRA_DATA = None))"
    by (auto simp: write_application_event_run[OF assms] Let_def dict_delitem_def delete_conv'
        split: sum.splits option.splits exn.splits)
  have exact: "map_of d END_INFER_TIME = Some (PStr s) \<and> fromisoformat_text lib s = Some t \<and>
          map_of d RESULT_EXTRA_DATA \<noteq> None \<longrightarrow>
            (let row = AList.delete RESULT_EXTRA_DATA (AList.update END_INFER_TIME t d);
                 c = FramesWrite TSDB_BE (tsdb_table store) [row]
                       [END_INFER_TIME, ENDPOINT_ID, APPLICATION_NAME, RESULT_NAME]
             in trace (snd (write_application_event lib bk store a w)) =
                  trace w @ [(c, raises bk c)] \<and>
                map_of row RESULT_EXTRA_DATA = None \<and>
                map_of row END_INFER_TIME = Some t \<and>
                (\<forall>k. k \<noteq> RESULT_EXTRA_DATA \<and> k \<noteq> END_INFER_TIME \<longrightarrow>
                     map_of row k = map_of d k))"
    using ne
    by (auto simp: write_application_event_run[OF assms] Let_def bindE_def dict_getitem_def
          fromisoformat_def dict_delitem_def update_conv' delete_conv'
          split: sum.splits option.splits exn.splits)
  from safety exact show ?thesis by blast
qed

theorem frames_row_omits_extra_data_witness:
  "trace (snd (write_application_event fixture_lib accepting_backends
       (tsdb_configurations fixture_writer) 0 (fixture_world (PInt 0)))) =
     [(FramesWrite ''tsdb'' ''my_table_path''
        [ [(ENDPOINT_ID, PStr ''some-ep-id''),
          (START_INFER_TIME, PStr ''2023-09-19 14:26:06.501084''),
          (END_INFER_TIME, PDatetime ''2023-09-19 16:26:06.501084''),
          (APPLICATION_NAME, PStr ''dummy-app''),
          (RESULT_NAME, PStr ''data-drift-0''),
          (RESULT_KIND, PInt 0),
          (RESULT_VALUE, PFloat (8 / 25)),
          (RESULT_STATUS, PInt 0)] ]
        [END_INFER_TIME, ENDPOINT_ID, APPLICATION_NAME, RESULT_NAME], None)]"
proof -
  have h: "heap_get (fixture_world (PInt 0)) 0 = Some (fixture_event (PInt 0))"
    by (simp add: heap_get_def fixture_world_def)
  from frames_row_omits_extra_data[OF h, of fixture_lib accepting_backends
      "tsdb_configurations fixture_writer" "''2023-09-19 16:26:06.501084''"
      "PDatetime ''2023-09-19 16:26:06.501084''"]
  show ?thesis
    by (simp add: fixture_defs fixture_world_def field_defs AList.delete_eq TSDB_BE_def Let_def)
qed

subsection \<open>The calls of one run of the writer\<close>

lemma obj_copy_heap:
  "heap_get w a = Some d \<Longrightarrow> obj_copy a w = (Inr (length (heap w)), w\<lparr>heap := heap w @ [d]\<rparr>)"
  by (simp add: obj_copy_def bindM_def read_dict_def new_dict_def)

lemma obj_pop_last:
  "heap w = h @ [d] \<Longrightarrow> obj_pop (length h) k w =
     (case dict_pop d k of Inl e \<Rightarrow> (Inl e, w)
      | Inr (v, d') \<Rightarrow> (Inr v, w\<lparr>heap := h @ [d']\<rparr>))"
  by (simp add: obj_pop_def bindM_def read_dict_def heap_get_def liftE_def write_dict_def
      returnM_def split: sum.splits prod.splits)

lemma read_dict_last:
  "heap w = h @ [d] \<Longrightarrow> read_dict (length h) w = (Inr d, w)"
  by (simp add: read_dict_def heap_get_def)

lemma update_kv_db_run:
  assumes "heap_get w a = Some d"
  shows "update_kv_db lib bk self a w =
    (case dict_pop d ENDPOINT_ID of Inl e \<Rightarrow> (Inl e, w\<lparr>heap := heap w @ [d]\<rparr>)
     | Inr (endpoint_id, d1) \<Rightarrow>
     (case dict_pop d1 APPLICATION_NAME of Inl e \<Rightarrow> (Inl e, w\<lparr>heap := heap w @ [d1]\<rparr>)
     | Inr (app_name, d2) \<Rightarrow>
     (case dict_pop d2 RESULT_NAME of Inl e \<Rightarrow> (Inl e, w\<lparr>heap := heap w @ [d2]\<rparr>)
     | Inr (mname, d3) \<Rightarrow>
        bindM (liftE (json_dumps lib (PDict d3))) (\<lambda>js.
        bindM (liftE (hashable mname)) (\<lambda>_.
        bindM (liftE (if kv_client self then Inr () else Inl AttributeError)) (\<lambda>_.
        bindM (liftE (str_add (v3io_path self) endpoint_id)) (\<lambda>table_path.
        bindM (perform bk (KVUpdate (v3io_container self) table_path app_name
                 [(mname, js)])) (\<lambda>_.
        (\<lambda>w. if store_type_is_v3io_nosql self \<and> endpoint_id \<notin> set (kv_schemas w)
              then generate_kv_schema lib bk self endpoint_id w
              else (Inr (), w)))))))
        (w\<lparr>heap := heap w @ [d3]\<rparr>))))"
proof -
  let ?n = "length (heap w)"
  let ?w0 = "w\<lparr>heap := heap w @ [d]\<rparr>"
  have u: "update_kv_db lib bk self a w =
     bindM (obj_pop ?n ENDPOINT_ID) (\<lambda>endpoint_id.
     bindM (obj_pop ?n APPLICATION_NAME) (\<lambda>app_name.
     bindM (obj_pop ?n RESULT_NAME) (\<lambda>mname.
     bindM (read_dict ?n) (\<lambda>d.
     bindM (liftE (json_dumps lib (PDict d))) (\<lambda>js.
     bindM (liftE (hashable mname)) (\<lambda>_.
     bindM (liftE (if kv_client self then Inr () else Inl AttributeError)) (\<lambda>_.
     bindM (liftE (str_add (v3io_path self) endpoint_id)) (\<lambda>table_path.
     bindM (perform bk (KVUpdate (v3io_container self) table_path app_name
              [(mname, js)])) (\<lambda>_.
     (\<lambda>w. if store_type_is_v3io_nosql self \<and> endpoint_id \<notin> set (kv_schemas w)
           then generate_kv_schema lib bk self endpoint_id w
           else (Inr (), w))))))))))) ?w0"
    unfolding update_kv_db_def by (rule bindM_Inr[where m="obj_copy a", OF obj_copy_heap[OF assms] ])
  show ?thesis
  proof (cases "dict_pop d ENDPOINT_ID")
    case (Inl e)
    then have "obj_pop ?n ENDPOINT_ID ?w0 = (Inl e, ?w0)"
      by (simp add: obj_pop_last[of ?w0 "heap w" d])
    then show ?thesis unfolding u using Inl
      by (simp add: bindM_Inl[where m="obj_pop ?n ENDPOINT_ID"])
  next
    case (Inr p1)
    obtain endpoint_id d1 where p1: "p1 = (endpoint_id, d1)" by (cases p1)
    let ?w1 = "w\<lparr>heap := heap w @ [d1]\<rparr>"
    have s1: "obj_pop ?n ENDPOINT_ID ?w0 = (Inr endpoint_id, ?w1)"
      using Inr p1 by (simp add: obj_pop_last[of ?w0 "heap w" d])
    show ?thesis
    proof (cases "dict_pop d1 APPLICATION_NAME")
      case (Inl e)
      then have "obj_pop ?n APPLICATION_NAME ?w1 = (Inl e, ?w1)"
        by (simp add: obj_pop_last[of ?w1 "heap w" d1])
      then show ?thesis unfolding u using Inl Inr p1
        by (simp add: bindM_Inr[where m="obj_pop ?n ENDPOINT_ID", OF s1]
            bindM_Inl[where m="obj_pop ?n APPLICATION_NAME"])
    next
      case Inr2: (Inr p2)
      obtain app_name d2 where p2: "p2 = (app_name, d2)" by (cases p2)
      let ?w2 = "w\<lparr>heap := heap w @ [d2]\<rparr>"
      have s2: "obj_pop ?n APPLICATION_NAME ?w1 = (Inr app_name, ?w2)"
        using Inr2 p2 by (simp add: obj_pop_last[of ?w1 "heap w" d1])
      show ?thesis
      proof (cases "dict_pop d2 RESULT_NAME")
        case (Inl e)
        then have "obj_pop ?n RESULT_NAME ?w2 = (Inl e, ?w2)"
          by (simp add: obj_pop_last[of ?w2 "heap w" d2])
        then show ?thesis unfolding u using Inl Inr p1 Inr2 p2
          by (simp add: bindM_Inr[where m="obj_pop ?n ENDPOINT_ID", OF s1]
              bindM_Inr[where m="obj_pop ?n APPLICATION_NAME", OF s2]
              bindM_Inl[where m="obj_pop ?n RESULT_NAME"])
      next
        case Inr3: (Inr p3)
        obtain mname d3 where p3: "p3 = (mname, d3)" by (cases p3)
        let ?w3 = "w\<lparr>heap := heap w @ [d3]\<rparr>"
        have s3: "obj_pop ?n RESULT_NAME ?w2 = (Inr mname, ?w3)"
          using Inr3 p3 by (simp add: obj_pop_last[of ?w2 "heap w" d2])
        have s4: "read_dict ?n ?w3 = (Inr d3, ?w3)"
          by (simp add: read_dict_last[of ?w3 "heap w" d3])
        show ?thesis unfolding u using Inr p1 Inr2 p2 Inr3 p3
          by (simp add: bindM_Inr[where m="obj_pop ?n ENDPOINT_ID", OF s1] bindM_Inr[where m="obj_pop ?n APPLICATION_NAME", OF s2] bindM_Inr[where m="obj_pop ?n RESULT_NAME", OF s3] bindM_Inr[where m="read_dict ?n", OF s4])
      qed
    qed
  qed
qed


lemma kv_tail_post:
  assumes run: "bindM (liftE X) (\<lambda>js. bindM (liftE Y) (\<lambda>_. bindM (liftE Z) (\<lambda>_.
       bindM (liftE T) (\<lambda>table_path. bindM (perform bk (C table_path js)) (\<lambda>_.
       (\<lambda>w. if B w then generate_kv_schema lib bk self eid w else (Inr (), w))))))) w0 = (r, w')"
    and ph: "\<And>tp js. phase (C tp js) = 1"
  shows "\<exists>ext. trace w' = trace w0 @ ext \<and> list_all (\<lambda>x. phase (fst x) = 1) ext \<and>
        length ext \<le> 2 \<and> (r = Inr () \<longrightarrow> ext \<noteq> [] \<and> list_all (\<lambda>x. snd x = None) ext)"
proof -
  consider (early) e where "r = Inl e" "w' = w0"
    | (call) js tp where "X = Inr js" "T = Inr tp"
        "bindM (perform bk (C tp js)) (\<lambda>_.
          (\<lambda>w. if B w then generate_kv_schema lib bk self eid w else (Inr (), w))) w0 = (r, w')"
    using run by (auto simp: bindM_def liftE_def split: sum.splits)
  then show ?thesis
  proof cases
    case early
    then show ?thesis by simp
  next
    case call
    let ?c = "C tp js"
    show ?thesis
    proof (cases "raises bk ?c")
      case (Some e)
      with call(3) have "r = Inl e" "trace w' = trace w0 @ [(?c, Some e)]"
        by (auto simp: bindM_def perform_def)
      then show ?thesis using ph by simp
    next
      case None
      let ?w1 = "w0\<lparr>trace := trace w0 @ [(?c, None)]\<rparr>"
      from None call(3) have rest:
        "(if B ?w1 then generate_kv_schema lib bk self eid ?w1 else (Inr (), ?w1)) = (r, w')"
        by (simp add: bindM_def perform_def)
      show ?thesis
      proof (cases "B ?w1")
        case False
        with rest have "r = Inr ()" "trace w' = trace w0 @ [(?c, None)]" by auto
        then show ?thesis using ph by simp
      next
        case True
        with rest have g: "generate_kv_schema lib bk self eid ?w1 = (r, w')" by simp
        from generate_kv_schema_post[OF g]
        consider "trace w' = trace ?w1" "\<exists>e. r = Inl e"
          | c' out where "trace w' = trace ?w1 @ [(c', out)]" "phase c' = 1"
              "r = Inr () \<longrightarrow> out = None"
          by blast
        then show ?thesis
        proof cases
          case 1
          then show ?thesis using ph by auto
        next
          case 2
          then show ?thesis using ph by auto
        qed
      qed
    qed
  qed
qed

lemma update_kv_db_post:
  assumes "heap_get w a = Some d" and "update_kv_db lib bk self a w = (r, w')"
  shows "heap_get w' a = Some d \<and>
     (\<exists>ext. trace w' = trace w @ ext \<and> list_all (\<lambda>x. phase (fst x) = 1) ext \<and>
        length ext \<le> 2 \<and> (r = Inr () \<longrightarrow> ext \<noteq> [] \<and> list_all (\<lambda>x. snd x = None) ext))"
proof -
  have h: "heap_get w' a = Some d"
    using assms update_kv_db_heap[OF assms(1), of lib bk self]
    by (auto intro: heap_get_prefix)
  have ph: "\<And>cont app mn tp js. phase (KVUpdate cont tp app [(mn, js)]) = 1"
    by (simp add: phase_def)
  have "\<exists>ext. trace w' = trace w @ ext \<and> list_all (\<lambda>x. phase (fst x) = 1) ext \<and>
        length ext \<le> 2 \<and> (r = Inr () \<longrightarrow> ext \<noteq> [] \<and> list_all (\<lambda>x. snd x = None) ext)"
  proof (cases "dict_pop d ENDPOINT_ID")
    case (Inl e)
    with assms(2) show ?thesis by (auto simp: update_kv_db_run[OF assms(1)])
  next
    case (Inr p1)
    obtain endpoint_id d1 where p1: "p1 = (endpoint_id, d1)" by (cases p1)
    show ?thesis
    proof (cases "dict_pop d1 APPLICATION_NAME")
      case (Inl e)
      with assms(2) Inr p1 show ?thesis by (auto simp: update_kv_db_run[OF assms(1)])
    next
      case Inr2: (Inr p2)
      obtain app_name d2 where p2: "p2 = (app_name, d2)" by (cases p2)
      show ?thesis
      proof (cases "dict_pop d2 RESULT_NAME")
        case (Inl e)
        with assms(2) Inr p1 Inr2 p2 show ?thesis by (auto simp: update_kv_db_run[OF assms(1)])
      next
        case Inr3: (Inr p3)
        obtain mname d3 where p3: "p3 = (mname, d3)" by (cases p3)
        from assms(2) Inr p1 Inr2 p2 Inr3 p3
        have tail: "bindM (liftE (json_dumps lib (PDict d3))) (\<lambda>js.
          bindM (liftE (hashable mname)) (\<lambda>_.
          bindM (liftE (if kv_client self then Inr () else Inl AttributeError)) (\<lambda>_.
          bindM (liftE (str_add (v3io_path self) endpoint_id)) (\<lambda>table_path.
          bindM (perform bk (KVUpdate (v3io_container self) table_path app_name
                   [(mname, js)])) (\<lambda>_.
          (\<lambda>w. if store_type_is_v3io_nosql self \<and> endpoint_id \<notin> set (kv_schemas w)
                then generate_kv_schema lib bk self endpoint_id w
                else (Inr (), w)))))))
          (w\<lparr>heap := heap w @ [d3]\<rparr>) = (r, w')"
          by (simp add: update_kv_db_run[OF assms(1)])
        from kv_tail_post[where C="\<lambda>tp js. KVUpdate (v3io_container self) tp app_name [(mname, js)]",
            OF tail ph]
        show ?thesis by simp
      qed
    qed
  qed
  with h show ?thesis by blast
qed

lemma notify_post:
  assumes "notify lib bk n w = (r, w')"
  shows "trace w' = trace w \<or> (\<exists>m out. trace w' = trace w @ [(Push m (notifier_severity n), out)])"
proof -
  have s: "\<And>w0. snd (should_send_event n w0) = w0"
    by (auto simp: should_send_event_def obj_getitem_def bindM_def read_dict_def liftE_def
        split: sum.splits option.splits)
  have g: "\<And>w0. snd (generate_message lib n w0) = w0"
    by (auto simp: generate_message_def obj_getitem_def bindM_def read_dict_def liftE_def
        returnM_def Let_def split: sum.splits option.splits)
  obtain r1 where r1: "should_send_event n w = (r1, w)" using s[of w] by (metis prod.collapse)
  obtain r2 where r2: "generate_message lib n w = (r2, w)" using g[of w] by (metis prod.collapse)
  show ?thesis using assms r1 r2
    by (auto simp: notify_def bindM_def returnM_def perform_def
        split: sum.splits option.splits if_splits)
qed


lemma update_tsdb_post:
  assumes "heap_get w a = Some d" and "update_tsdb lib bk self a w = (r, w')"
  shows "heap_get w' a = Some d \<and>
     (trace w' = trace w \<and> (\<exists>e. r = Inl e) \<or>
      (\<exists>c out. trace w' = trace w @ [(c, out)] \<and> phase c = 0 \<and>
         (r = Inr () \<longrightarrow> out = None \<or> (\<exists>m. out = Some (V3IOFramesError m)))))"
proof -
  let ?store = "get_tsdb_store (tsdb_configurations self)"
  from assms(2) have run: "write_application_event lib bk ?store a w = (r, w')"
    by (simp add: update_tsdb_def)
  from write_application_event_heap[OF assms(1), of lib bk ?store] run
  obtain d' where "heap w' = heap w @ [d']" by auto
  then have h: "heap_get w' a = Some d" by (rule heap_get_prefix[OF assms(1)])
  have ph: "\<And>row. phase (FramesWrite TSDB_BE (tsdb_table ?store) [row]
      [END_INFER_TIME, ENDPOINT_ID, APPLICATION_NAME, RESULT_NAME]) = 0"
    by (simp add: phase_def)
  have "trace w' = trace w \<and> (\<exists>e. r = Inl e) \<or>
      (\<exists>c out. trace w' = trace w @ [(c, out)] \<and> phase c = 0 \<and>
         (r = Inr () \<longrightarrow> out = None \<or> (\<exists>m. out = Some (V3IOFramesError m))))"
  proof (cases "bindE (dict_getitem d END_INFER_TIME) (fromisoformat lib)")
    case (Inl e)
    with run show ?thesis by (auto simp: write_application_event_run[OF assms(1)])
  next
    case (Inr t)
    show ?thesis
    proof (cases "dict_delitem (AList.update END_INFER_TIME t d) RESULT_EXTRA_DATA")
      case (Inl e)
      with run Inr show ?thesis by (auto simp: write_application_event_run[OF assms(1)])
    next
      case row: (Inr row)
      let ?c = "FramesWrite TSDB_BE (tsdb_table ?store) [row]
                  [END_INFER_TIME, ENDPOINT_ID, APPLICATION_NAME, RESULT_NAME]"
      from run Inr row have tr: "trace w' = trace w @ [(?c, raises bk ?c)]"
        by (auto simp: write_application_event_run[OF assms(1)] Let_def
            split: option.splits exn.splits)
      from run Inr row have res: "r = Inr () \<longrightarrow>
          raises bk ?c = None \<or> (\<exists>m. raises bk ?c = Some (V3IOFramesError m))"
        by (auto simp: write_application_event_run[OF assms(1)] Let_def
            split: option.splits exn.splits)
      from tr res ph[of row] show ?thesis by blast
    qed
  qed
  with h show ?thesis by blast
qed

lemma writer_do_run:
  "writer_do lib bk self raw w =
     (case reconstruct_event lib raw of
        Inl e \<Rightarrow> (Inl e, w)
      | Inr d \<Rightarrow>
          bindM (update_tsdb lib bk self (length (heap w))) (\<lambda>_.
          bindM (update_kv_db lib bk self (length (heap w))) (\<lambda>_.
          notify lib bk (new_Notifier (length (heap w))))) (w\<lparr>heap := heap w @ [d]\<rparr>))"
  by (simp add: writer_do_def bindM_def liftE_def new_dict_def split: sum.splits)

text \<open>
  Claim C6, as stated, fails in its last part: when the frames backend rejects the write
  with \<open>V3IOFramesError\<close>, the store catches the error, no row is written, and the
  metadata write and the notification take place all the same.
\<close>

theorem frames_failure_then_metadata_and_push:
  "map snd (trace (snd (writer_do fixture_lib
        (frames_failing_backends (V3IOFramesError ''write failed''))
        fixture_writer (fixture_raw_event (PInt 2) ''{}'') empty_world))) =
     [Some (V3IOFramesError ''write failed''), None, None, None] \<and>
   map (phase \<circ> fst) (trace (snd (writer_do fixture_lib
        (frames_failing_backends (V3IOFramesError ''write failed''))
        fixture_writer (fixture_raw_event (PInt 2) ''{}'') empty_world))) =
     [0, 1, 1, 2]"
  by code_simp

text \<open>
  Claim C6, amended. For every event, the calls that \<open>do\<close> makes are ordered: at most one
  time-series write call, then the calls to the key-value metadata store, then at most
  one notification. A metadata call is made only after the time-series write call has
  returned, having succeeded or having failed with a \<open>V3IOFramesError\<close> that the frames
  store caught; a notification is made only after the metadata calls have all succeeded.
\<close>

theorem side_effects_ordered:
  "\<exists>ts kv ps. trace (snd (writer_do lib bk self raw w)) = trace w @ ts @ kv @ ps \<and>
     list_all (\<lambda>x. phase (fst x) = 0) ts \<and> list_all (\<lambda>x. phase (fst x) = 1) kv \<and>
     list_all (\<lambda>x. phase (fst x) = 2) ps \<and>
     length ts \<le> 1 \<and> length kv \<le> 2 \<and> length ps \<le> 1 \<and>
     (kv \<noteq> [] \<longrightarrow> (\<exists>c out. ts = [(c, out)] \<and>
                        (out = None \<or> (\<exists>m. out = Some (V3IOFramesError m))))) \<and>
     (ps \<noteq> [] \<longrightarrow> kv \<noteq> [] \<and> list_all (\<lambda>x. snd x = None) kv)"
  (is "\<exists>ts kv ps. ?shape ts kv ps")
proof (cases "reconstruct_event lib raw")
  case (Inl e)
  then have "trace (snd (writer_do lib bk self raw w)) = trace w"
    by (simp add: writer_do_run)
  then have "?shape [] [] []" by simp
  then show ?thesis by blast
next
  case (Inr d)
  let ?a = "length (heap w)"
  let ?w1 = "w\<lparr>heap := heap w @ [d]\<rparr>"
  have h1: "heap_get ?w1 ?a = Some d" by (rule heap_get_new)
  obtain r1 w2 where s1: "update_tsdb lib bk self ?a ?w1 = (r1, w2)" by fastforce
  from update_tsdb_post[OF h1 s1]
  have h2: "heap_get w2 ?a = Some d"
    and t1: "trace w2 = trace w \<and> (\<exists>e. r1 = Inl e) \<or>
      (\<exists>c out. trace w2 = trace w @ [(c, out)] \<and> phase c = 0 \<and>
         (r1 = Inr () \<longrightarrow> out = None \<or> (\<exists>m. out = Some (V3IOFramesError m))))"
    by simp_all
  show ?thesis
  proof (cases r1)
    case e: (Inl e)
    with Inr s1 have "trace (snd (writer_do lib bk self raw w)) = trace w2"
      by (simp add: writer_do_run bindM_def)
    with t1 consider "trace (snd (writer_do lib bk self raw w)) = trace w"
      | c out where "trace (snd (writer_do lib bk self raw w)) = trace w @ [(c, out)]"
          "phase c = 0"
      by auto
    then show ?thesis
    proof cases
      case 1
      then have "?shape [] [] []" by simp
      then show ?thesis by blast
    next
      case 2
      then have "?shape [(c, out)] [] []" by simp
      then show ?thesis by blast
    qed
  next
    case ok1: (Inr u1)
    with t1 obtain c out where ts: "trace w2 = trace w @ [(c, out)]" "phase c = 0"
      "out = None \<or> (\<exists>m. out = Some (V3IOFramesError m))" by auto
    obtain r2 w3 where s2: "update_kv_db lib bk self ?a w2 = (r2, w3)" by fastforce
    from update_kv_db_post[OF h2 s2]
    obtain kv where h3: "heap_get w3 ?a = Some d"
      and kv: "trace w3 = trace w2 @ kv" "list_all (\<lambda>x. phase (fst x) = 1) kv" "length kv \<le> 2"
        "r2 = Inr () \<longrightarrow> kv \<noteq> [] \<and> list_all (\<lambda>x. snd x = None) kv"
      by blast
    show ?thesis
    proof (cases r2)
      case e: (Inl e)
      with Inr s1 ok1 s2 have "trace (snd (writer_do lib bk self raw w)) = trace w3"
        by (simp add: writer_do_run bindM_def)
      then have "?shape [(c, out)] kv []" using ts kv by simp
      then show ?thesis by blast
    next
      case ok2: (Inr u2)
      obtain r3 w4 where s3: "notify lib bk (new_Notifier ?a) w3 = (r3, w4)" by fastforce
      from Inr s1 ok1 s2 ok2 s3 have fin: "trace (snd (writer_do lib bk self raw w)) = trace w4"
        by (simp add: writer_do_run bindM_def)
      from notify_post[OF s3] consider "trace w4 = trace w3"
        | m o3 where "trace w4 = trace w3 @ [(Push m (notifier_severity (new_Notifier ?a)), o3)]"
        by blast
      then show ?thesis
      proof cases
        case 1
        then have "?shape [(c, out)] kv []" using fin ts kv by simp
        then show ?thesis by blast
      next
        case 2
        then have "?shape [(c, out)] kv [(Push m (notifier_severity (new_Notifier ?a)), o3)]"
          using fin ts kv ok2 by (simp add: phase_def)
        then show ?thesis by blast
      qed
    qed
  qed
qed

theorem side_effects_ordered_witness:
  "map (phase \<circ> fst) (trace (snd (writer_do fixture_lib accepting_backends fixture_writer
        (fixture_raw_event (PInt 2) ''{}'') empty_world))) = [0, 1, 1, 2] \<and>
   (\<exists>ts kv ps. trace (snd (writer_do fixture_lib accepting_backends fixture_writer
        (fixture_raw_event (PInt 2) ''{}'') empty_world)) = ts @ kv @ ps \<and>
      kv \<noteq> [] \<and> ps \<noteq> [] \<and> length ts = 1 \<and>
      list_all (\<lambda>x. phase (fst x) = 0) ts \<and> list_all (\<lambda>x. phase (fst x) = 1) kv \<and>
      list_all (\<lambda>x. phase (fst x) = 2) ps)"
proof -
  let ?tr = "trace (snd (writer_do fixture_lib accepting_backends fixture_writer
        (fixture_raw_event (PInt 2) ''{}'') empty_world))"
  have ev: "map (phase \<circ> fst) ?tr = [0, 1, 1, 2]" by code_simp
  have e0: "trace empty_world = []" by (simp add: empty_world_def)
  have "\<exists>ts kv ps. ?tr = ts @ kv @ ps \<and>
     list_all (\<lambda>x. phase (fst x) = 0) ts \<and> list_all (\<lambda>x. phase (fst x) = 1) kv \<and>
     list_all (\<lambda>x. phase (fst x) = 2) ps \<and>
     length ts \<le> 1 \<and> length kv \<le> 2 \<and> length ps \<le> 1 \<and>
     (kv \<noteq> [] \<longrightarrow> (\<exists>c out. ts = [(c, out)] \<and>
                        (out = None \<or> (\<exists>m. out = Some (V3IOFramesError m))))) \<and>
     (ps \<noteq> [] \<longrightarrow> kv \<noteq> [] \<and> list_all (\<lambda>x. snd x = None) kv)"
    using side_effects_ordered[of fixture_lib accepting_backends fixture_writer
      "fixture_raw_event (PInt 2) ''{}''" empty_world]
    by (simp only: e0 append_Nil)
  then obtain ts kv ps where sh: "?tr = ts @ kv @ ps"
     "list_all (\<lambda>x. phase (fst x) = 0) ts" "list_all (\<lambda>x. phase (fst x) = 1) kv"
     "list_all (\<lambda>x. phase (fst x) = 2) ps"
     "length ts \<le> 1" "length kv \<le> 2" "length ps \<le> 1"
     "kv \<noteq> [] \<longrightarrow> (\<exists>c out. ts = [(c, out)] \<and>
                        (out = None \<or> (\<exists>m. out = Some (V3IOFramesError m))))"
     "ps \<noteq> [] \<longrightarrow> kv \<noteq> [] \<and> list_all (\<lambda>x. snd x = None) kv"
    by blast
  have "length (map (phase \<circ> fst) ?tr) = 4" by (simp only: ev) simp
  then have len: "length ts + length kv + length ps = 4" by (simp add: sh(1))
  have kv: "kv \<noteq> []" using len sh(5,7) by auto
  then have ts: "length ts = 1" using sh(8) by auto
  have ps: "ps \<noteq> []" using len ts sh(6) by auto
  from ev sh kv ps ts show ?thesis by blast
qed

text \<open>
  Claim C3, as stated, fails: when the frames backend raises \<open>V3IOFramesError\<close> on the
  write, \<open>do\<close> returns normally; the failure is not surfaced to the caller.
\<close>

theorem frames_failure_swallowed:
  "fst (writer_do fixture_lib (frames_failing_backends (V3IOFramesError ''write failed''))
        fixture_writer (fixture_raw_event (PInt 2) ''{}'') empty_world) = Inr () \<and>
   hd (trace (snd (writer_do fixture_lib (frames_failing_backends (V3IOFramesError ''write failed''))
        fixture_writer (fixture_raw_event (PInt 2) ''{}'') empty_world))) =
     (FramesWrite ''tsdb'' ''my_table_path''
        [ [(APPLICATION_NAME, PStr ''dummy-app''),
          (ENDPOINT_ID, PStr ''some-ep-id''),
          (START_INFER_TIME, PStr ''2023-09-19 14:26:06.501084''),
          (END_INFER_TIME, PDatetime ''2023-09-19 16:26:06.501084''),
          (RESULT_NAME, PStr ''data-drift-0''),
          (RESULT_VALUE, PFloat (8 / 25)),
          (RESULT_KIND, PInt 0),
          (RESULT_STATUS, PInt 2),
          (CURRENT_STATS, PDict [])] ]
        [END_INFER_TIME, ENDPOINT_ID, APPLICATION_NAME, RESULT_NAME],
      Some (V3IOFramesError ''write failed''))"
  by code_simp

lemma filter_phase0_tail:
  assumes "list_all (\<lambda>x. phase (fst x) = 1) kv" "list_all (\<lambda>x. phase (fst x) = 2) ps"
  shows "filter (\<lambda>x. phase (fst x) = 0) (kv @ ps) = []"
  using assms by (auto simp: list_all_iff filter_empty_conv)

text \<open>
  Claim C3, amended. When the frames backend raises on the time-series write of a
  reconstructed event, then: an exception other than \<open>V3IOFramesError\<close> leaves \<open>do\<close>
  unchanged, carrying its message, before any metadata write or notification; a
  \<open>V3IOFramesError\<close> is caught by the frames store, and the writer goes on with the
  metadata write and the notification from the state in which the one failed write is
  the only call made. In both cases that failed write is the only time-series call of
  the whole run: the writer does not retry.
\<close>

theorem frames_write_failure_handling:
  assumes rec: "reconstruct_event lib raw = Inr d"
    and t: "map_of d END_INFER_TIME = Some (PStr s)" "fromisoformat_text lib s = Some t"
    and e: "raises bk (FramesWrite TSDB_BE (tsdb_table (tsdb_configurations self))
              [AList.delete RESULT_EXTRA_DATA (AList.update END_INFER_TIME t d)]
              [END_INFER_TIME, ENDPOINT_ID, APPLICATION_NAME, RESULT_NAME]) = Some e"
  shows "(let row = AList.delete RESULT_EXTRA_DATA (AList.update END_INFER_TIME t d);
              c = FramesWrite TSDB_BE (tsdb_table (tsdb_configurations self)) [row]
                    [END_INFER_TIME, ENDPOINT_ID, APPLICATION_NAME, RESULT_NAME];
              w1 = w\<lparr>heap := heap w @ [d, row], trace := trace w @ [(c, Some e)]\<rparr>
          in ((\<forall>msg. e \<noteq> V3IOFramesError msg) \<longrightarrow>
                writer_do lib bk self raw w = (Inl e, w1)) \<and>
             ((\<exists>msg. e = V3IOFramesError msg) \<longrightarrow>
                writer_do lib bk self raw w =
                  bindM (update_kv_db lib bk self (length (heap w)))
                    (\<lambda>_. notify lib bk (new_Notifier (length (heap w)))) w1) \<and>
             filter (\<lambda>x. phase (fst x) = 0)
               (drop (length (trace w)) (trace (snd (writer_do lib bk self raw w)))) =
               [(c, Some e)])"
proof -
  let ?row = "AList.delete RESULT_EXTRA_DATA (AList.update END_INFER_TIME t d)"
  let ?c = "FramesWrite TSDB_BE (tsdb_table (tsdb_configurations self)) [?row]
              [END_INFER_TIME, ENDPOINT_ID, APPLICATION_NAME, RESULT_NAME]"
  let ?a = "length (heap w)"
  let ?w0 = "w\<lparr>heap := heap w @ [d]\<rparr>"
  let ?w1 = "w\<lparr>heap := heap w @ [d, ?row], trace := trace w @ [(?c, Some e)]\<rparr>"
  let ?rest = "bindM (update_kv_db lib bk self ?a) (\<lambda>_. notify lib bk (new_Notifier ?a))"
  let ?calls = "\<lambda>tr. filter (\<lambda>x. phase (fst x) = 0) (drop (length (trace w)) tr)"
  have x: "map_of d RESULT_EXTRA_DATA \<noteq> None"
    using reconstruct_event_Inr_present[OF rec, of RESULT_EXTRA_DATA]
    by (auto simp: WriterEvent_list_def)
  have ne: "RESULT_EXTRA_DATA \<noteq> END_INFER_TIME" by (simp add: field_defs)
  have ph: "phase ?c = 0" by (simp add: phase_def)
  have h0: "heap_get ?w0 ?a = Some d" by (rule heap_get_new)
  have ts: "update_tsdb lib bk self ?a ?w0 =
      (case e of V3IOFramesError msg \<Rightarrow> Inr () | _ \<Rightarrow> Inl e, ?w1)"
    using t x ne e
    by (auto simp: update_tsdb_def get_tsdb_store_def write_application_event_run[OF h0] Let_def
        bindE_def dict_getitem_def fromisoformat_def dict_delitem_def update_conv'
        split: exn.splits)
  have 1: "(\<forall>msg. e \<noteq> V3IOFramesError msg) \<longrightarrow> writer_do lib bk self raw w = (Inl e, ?w1)"
    using rec ts by (cases e) (simp_all add: writer_do_run bindM_def)
  have 2: "(\<exists>msg. e = V3IOFramesError msg) \<longrightarrow> writer_do lib bk self raw w = ?rest ?w1"
    using rec ts by (cases e) (simp_all add: writer_do_run bindM_def)
  have 3: "?calls (trace (snd (writer_do lib bk self raw w))) = [(?c, Some e)]"
  proof (cases "\<exists>msg. e = V3IOFramesError msg")
    case False
    with 1 have "writer_do lib bk self raw w = (Inl e, ?w1)" by blast
    then show ?thesis using ph by simp
  next
    case True
    with 2 have run: "writer_do lib bk self raw w = ?rest ?w1" by blast
    have h1: "heap_get ?w1 ?a = Some d" by (simp add: heap_get_def nth_append)
    obtain r2 w3 where s2: "update_kv_db lib bk self ?a ?w1 = (r2, w3)" by fastforce
    from update_kv_db_post[OF h1 s2]
    obtain kv where kv: "trace w3 = trace ?w1 @ kv" "list_all (\<lambda>x. phase (fst x) = 1) kv"
      by blast
    obtain r3 w4 where s3: "notify lib bk (new_Notifier ?a) w3 = (r3, w4)" by fastforce
    from notify_post[OF s3]
    obtain ps where ps: "trace w4 = trace w3 @ ps" "list_all (\<lambda>x. phase (fst x) = 2) ps"
      by (auto simp: phase_def)
    have "\<exists>ps'. trace (snd (?rest ?w1)) = trace ?w1 @ kv @ ps' \<and>
                list_all (\<lambda>x. phase (fst x) = 2) ps'"
    proof (cases r2)
      case (Inl e2)
      with s2 kv have "trace (snd (?rest ?w1)) = trace ?w1 @ kv @ []"
        by (simp add: bindM_def)
      then show ?thesis by (intro exI[of _ "[]"]) simp
    next
      case (Inr u)
      with s2 s3 kv ps have "trace (snd (?rest ?w1)) = trace ?w1 @ kv @ ps"
        by (simp add: bindM_def)
      with ps(2) show ?thesis by blast
    qed
    then obtain ps' where fin: "trace (snd (?rest ?w1)) = trace ?w1 @ kv @ ps'"
      and ps': "list_all (\<lambda>x. phase (fst x) = 2) ps'" by blast
    have "drop (length (trace w)) (trace (snd (?rest ?w1))) = (?c, Some e) # (kv @ ps')"
      by (simp add: fin)
    then show ?thesis
      unfolding run using ph filter_phase0_tail[OF kv(2) ps'] by simp
  qed
  from 1 2 3 show ?thesis by (simp add: Let_def)
qed

theorem frames_write_failure_handling_witness:
  "writer_do fixture_lib (frames_failing_backends (OtherError ''connection lost''))
        fixture_writer (fixture_raw_event (PInt 2) ''{}'') empty_world =
     (Inl (OtherError ''connection lost''),
      \<lparr>heap = [fixture_reconstructed (PInt 2),
               AList.delete RESULT_EXTRA_DATA (AList.update END_INFER_TIME
                 (PDatetime ''2023-09-19 16:26:06.501084'') (fixture_reconstructed (PInt 2)))],
       trace = [(FramesWrite TSDB_BE ''my_table_path''
                  [AList.delete RESULT_EXTRA_DATA (AList.update END_INFER_TIME
                     (PDatetime ''2023-09-19 16:26:06.501084'')
                     (fixture_reconstructed (PInt 2)))]
                  [END_INFER_TIME, ENDPOINT_ID, APPLICATION_NAME, RESULT_NAME],
                 Some (OtherError ''connection lost''))],
       kv_schemas = []\<rparr>) \<and>
   filter (\<lambda>x. phase (fst x) = 0)
     (trace (snd (writer_do fixture_lib
        (frames_failing_backends (V3IOFramesError ''write failed''))
        fixture_writer (fixture_raw_event (PInt 2) ''{}'') empty_world))) =
     [(FramesWrite TSDB_BE ''my_table_path''
         [AList.delete RESULT_EXTRA_DATA (AList.update END_INFER_TIME
            (PDatetime ''2023-09-19 16:26:06.501084'') (fixture_reconstructed (PInt 2)))]
         [END_INFER_TIME, ENDPOINT_ID, APPLICATION_NAME, RESULT_NAME],
       Some (V3IOFramesError ''write failed''))]"
proof -
  let ?d = "fixture_reconstructed (PInt 2)"
  have t: "map_of ?d END_INFER_TIME = Some (PStr ''2023-09-19 16:26:06.501084'')"
    by (simp add: fixture_reconstructed_def field_defs)
  have f: "fromisoformat_text fixture_lib ''2023-09-19 16:26:06.501084'' =
      Some (PDatetime ''2023-09-19 16:26:06.501084'')" by (simp add: fixture_lib_def)
  have e: "\<And>x. raises (frames_failing_backends x)
     (FramesWrite TSDB_BE (tsdb_table (tsdb_configurations fixture_writer))
              [AList.delete RESULT_EXTRA_DATA (AList.update END_INFER_TIME
                 (PDatetime ''2023-09-19 16:26:06.501084'') ?d)]
              [END_INFER_TIME, ENDPOINT_ID, APPLICATION_NAME, RESULT_NAME]) = Some x"
    by (simp add: frames_failing_backends_def)
  have len0: "length (trace empty_world) = 0" by (simp add: empty_world_def)
  have tbl: "tsdb_table (tsdb_configurations fixture_writer) = ''my_table_path''"
    by (simp add: fixture_writer_def)
  have a: "writer_do fixture_lib (frames_failing_backends (OtherError ''connection lost''))
        fixture_writer (fixture_raw_event (PInt 2) ''{}'') empty_world =
     (Inl (OtherError ''connection lost''),
      \<lparr>heap = [?d, AList.delete RESULT_EXTRA_DATA (AList.update END_INFER_TIME
                 (PDatetime ''2023-09-19 16:26:06.501084'') ?d)],
       trace = [(FramesWrite TSDB_BE ''my_table_path''
                  [AList.delete RESULT_EXTRA_DATA (AList.update END_INFER_TIME
                     (PDatetime ''2023-09-19 16:26:06.501084'') ?d)]
                  [END_INFER_TIME, ENDPOINT_ID, APPLICATION_NAME, RESULT_NAME],
                 Some (OtherError ''connection lost''))],
       kv_schemas = []\<rparr>)"
    using frames_write_failure_handling[OF reconstruct_fixture t f
         e[of "OtherError ''connection lost''"], of empty_world]
    by (simp add: Let_def empty_world_def fixture_writer_def)
  have b: "filter (\<lambda>x. phase (fst x) = 0)
     (trace (snd (writer_do fixture_lib
        (frames_failing_backends (V3IOFramesError ''write failed''))
        fixture_writer (fixture_raw_event (PInt 2) ''{}'') empty_world))) =
     [(FramesWrite TSDB_BE ''my_table_path''
         [AList.delete RESULT_EXTRA_DATA (AList.update END_INFER_TIME
            (PDatetime ''2023-09-19 16:26:06.501084'') ?d)]
         [END_INFER_TIME, ENDPOINT_ID, APPLICATION_NAME, RESULT_NAME],
       Some (V3IOFramesError ''write failed''))]"
    using frames_write_failure_handling[OF reconstruct_fixture t f
         e[of "V3IOFramesError ''write failed''"], of empty_world]
    unfolding Let_def len0 tbl drop_0 by blast
  from a b show ?thesis by (rule conjI)
qed

subsection \<open>Reading metrics and results\<close>

text \<open>When \<open>get_records\<close> returns a frame: the statement was built, the backend accepted
  it, and the frame holds the rows it answered.\<close>

lemma get_records_Inr:
  "get_records q bk self rq w = (Inr df, w') \<longleftrightarrow>
     (\<exists>fq. get_records_query q
              (rq\<lparr>rq_filter_query :=
                    (if rq_filter_query rq \<noteq> [] then rq_filter_query rq @ '' and '' else []) @
                    ''project = '' @ [CHR 0x27] @ td_project self @ [CHR 0x27],
                  rq_database := td_database self\<rparr>) = Inr fq \<and>
           raises bk (TDQuery fq) = None \<and>
           DataFrame (snd (query_result bk fq)) (fst (query_result bk fq)) = Inr df \<and>
           w' = w\<lparr>trace := trace w @ [(TDQuery fq, None)]\<rparr>)"
  by (auto simp: get_records_def Let_def bindM_def liftE_def perform_def
      split: sum.splits option.splits exn.splits prod.splits)

lemma df_handlers_length:
  "length (df_to_metrics_values df metrics p) = length metrics"
  "length (df_to_results_values df metrics p) = length metrics"
  by (simp_all add: df_to_metrics_values_def df_to_results_values_def)

lemma df_handlers_nth:
  assumes "i < length metrics"
  shows "df_to_metrics_values df metrics p ! i =
           (if rows_of_metric METRIC_NAME df (metrics ! i) = []
            then ModelEndpointMonitoringMetricNoData (metrics ! i) METRIC_TYPE
            else ModelEndpointMonitoringMetricValues (metrics ! i)
                   (map (\<lambda>row. (cell row END_INFER_TIME, cell row METRIC_VALUE))
                      (rows_of_metric METRIC_NAME df (metrics ! i))))"
    and "df_to_results_values df metrics p ! i =
           (if rows_of_metric RESULT_NAME df (metrics ! i) = []
            then ModelEndpointMonitoringMetricNoData (metrics ! i) RESULT_TYPE
            else ModelEndpointMonitoringResultValues (metrics ! i)
                   (map (\<lambda>row. (cell row END_INFER_TIME, cell row RESULT_VALUE,
                                 cell row RESULT_STATUS))
                      (rows_of_metric RESULT_NAME df (metrics ! i))))"
  using assms by (simp_all add: df_to_metrics_values_def df_to_results_values_def Let_def)

text \<open>
  Claim C8. \<open>read_metrics_data\<close> gives one entry per requested metric. Whenever the type
  is one of the two known ones, the query returns a frame and its time column converts,
  the function returns a list as long as the list of requested metrics, whose entry for
  a metric is the value series of the rows of that (application, name) when there are
  such rows and the distinct no-data entry when there are none; and whenever the
  function returns a list it is of this form. No requested metric is omitted.
\<close>

theorem read_metrics_data_one_entry_per_metric:
  "(let name = (if type' = ''metrics'' then METRIC_NAME else RESULT_NAME);
        rq = \<lparr>rq_table = supertable_name (if type' = ''metrics'' then METRICS else APP_RESULTS),
              rq_start = start, rq_end = end', rq_columns_to_filter = None,
              rq_filter_query =
                ''endpoint_id='' @ [CHR 0x27] @ endpoint_id @ [CHR 0x27] @ '' '' @ ''AND '' @
                join_OR (map (\<lambda>metric. ''('' @ APPLICATION_NAME @ '' = '' @ [CHR 0x27] @
                   metric_app metric @ [CHR 0x27] @ '' AND '' @ name @ '' = '' @ [CHR 0x27] @
                   metric_name metric @ [CHR 0x27] @ '')'') metrics),
              rq_interval = [], rq_limit = 0, rq_agg = None, rq_sliding_window = [],
              rq_timestamp_column = END_INFER_TIME, rq_database = []\<rparr>;
        entry = (\<lambda>df m.
           if type' = ''metrics'' then
             (if rows_of_metric METRIC_NAME df m = []
              then ModelEndpointMonitoringMetricNoData m METRIC_TYPE
              else ModelEndpointMonitoringMetricValues m
                     (map (\<lambda>row. (cell row END_INFER_TIME, cell row METRIC_VALUE))
                        (rows_of_metric METRIC_NAME df m)))
           else
             (if rows_of_metric RESULT_NAME df m = []
              then ModelEndpointMonitoringMetricNoData m RESULT_TYPE
              else ModelEndpointMonitoringResultValues m
                     (map (\<lambda>row. (cell row END_INFER_TIME, cell row RESULT_VALUE,
                                   cell row RESULT_STATUS))
                        (rows_of_metric RESULT_NAME df m))))
    in
     ((type' = ''metrics'' \<or> type' = ''results'') \<and>
      get_records q bk self rq w = (Inr df0, w1) \<and>
      column_to_datetime lib END_INFER_TIME df0 = Inr df \<longrightarrow>
        (\<exists>res. read_metrics_data lib q bk self endpoint_id start end' metrics type' w
                 = (Inr res, w1) \<and>
               length res = length metrics \<and>
               (\<forall>i < length metrics. res ! i = entry df (metrics ! i)))) \<and>
     (read_metrics_data lib q bk self endpoint_id start end' metrics type' w = (Inr out, w') \<longrightarrow>
        (type' = ''metrics'' \<or> type' = ''results'') \<and>
        length out = length metrics \<and>
        (\<exists>fr fr'. get_records q bk self rq w = (Inr fr, w') \<and>
           column_to_datetime lib END_INFER_TIME fr = Inr fr' \<and>
           (\<forall>i < length metrics. out ! i = entry fr' (metrics ! i)))))"
proof -
  have m: "type' = ''metrics'' \<Longrightarrow> ?thesis"
    by (auto simp: read_metrics_data_def Let_def bindM_def liftE_def returnM_def
        df_handlers_length df_handlers_nth split: sum.splits prod.splits)
  have r: "type' = ''results'' \<Longrightarrow> ?thesis"
    by (auto simp: read_metrics_data_def Let_def bindM_def liftE_def returnM_def
        df_handlers_length df_handlers_nth split: sum.splits prod.splits)
  have o: "type' \<noteq> ''metrics'' \<Longrightarrow> type' \<noteq> ''results'' \<Longrightarrow> ?thesis"
    by (simp add: read_metrics_data_def Let_def liftE_def)
  from m r o show ?thesis by blast
qed

theorem read_metrics_data_one_entry_per_metric_witness:
  "fst (read_metrics_data fixture_lib fixture_queries metrics_backends fixture_connector
      ''ep-1'' ''now-1h'' ''now''
      [\<lparr>metric_app = ''app1'', metric_name = ''m1''\<rparr>,
       \<lparr>metric_app = ''app1'', metric_name = ''m2''\<rparr>] ''metrics'' empty_world) =
   Inr [ModelEndpointMonitoringMetricValues \<lparr>metric_app = ''app1'', metric_name = ''m1''\<rparr>
          [(PStr ''2023-09-19 16:26:06'', PFloat (1 / 2))],
        ModelEndpointMonitoringMetricNoData \<lparr>metric_app = ''app1'', metric_name = ''m2''\<rparr>
          METRIC_TYPE]"
proof -
  let ?ms = "[\<lparr>metric_app = ''app1'', metric_name = ''m1''\<rparr>,
       \<lparr>metric_app = ''app1'', metric_name = ''m2''\<rparr>]"
  let ?run = "read_metrics_data fixture_lib fixture_queries metrics_backends fixture_connector
      ''ep-1'' ''now-1h'' ''now'' ?ms ''metrics'' empty_world"
  obtain out w' where run: "?run = (Inr out, w')"
    by (simp add: read_metrics_data_def get_records_def Let_def bindM_def liftE_def returnM_def
        perform_def DataFrame_def column_to_datetime_def bindE_def cell_def
        fixture_lib_def fixture_queries_def metrics_backends_def fixture_connector_def
        field_defs METRIC_VALUE_def)
  have ev: "?run = (Inr [ModelEndpointMonitoringMetricValues
          \<lparr>metric_app = ''app1'', metric_name = ''m1''\<rparr>
          [(PStr ''2023-09-19 16:26:06'', PFloat (1 / 2))],
        ModelEndpointMonitoringMetricNoData \<lparr>metric_app = ''app1'', metric_name = ''m2''\<rparr>
          METRIC_TYPE], w')"
  proof -
    have "length out = length ?ms"
      using read_metrics_data_one_entry_per_metric[of "''metrics''" "''now-1h''" "''now''"
        "''ep-1''" ?ms fixture_queries metrics_backends fixture_connector empty_world
        _ _ fixture_lib _ out w'] run
      by (simp add: Let_def)
    moreover have "fst ?run = Inr [ModelEndpointMonitoringMetricValues
          \<lparr>metric_app = ''app1'', metric_name = ''m1''\<rparr>
          [(PStr ''2023-09-19 16:26:06'', PFloat (1 / 2))],
        ModelEndpointMonitoringMetricNoData \<lparr>metric_app = ''app1'', metric_name = ''m2''\<rparr>
          METRIC_TYPE]"
      by code_simp
    ultimately show ?thesis using run by simp
  qed
  then show ?thesis by simp
qed


subsection \<open>Listing model endpoints\<close>









subsection \<open>The tag-engine write at the fixture\<close>

text \<open>The tag engine writes the project into the caller's own dictionary, unlike the
  frames store, and names the subtable of its two statements by \<open>subtable_name\<close>.\<close>

lemma td_write_application_event_fixture:
  "td_write_application_event fixture_lib fixture_queries accepting_backends fixture_connector 0
     RESULT (fixture_world (PInt 0)) =
   (Inr (),
    \<lparr>heap = [fixture_event (PInt 0) @ [(PROJECT, PStr ''proj'')] ],
     trace = [(TDExecute ''CREATE proj_some_ep_id_dummy_app__data_drift_0'', None),
              (TDExecute ''INSERT proj_some_ep_id_dummy_app__data_drift_0'', None)],
     kv_schemas = []\<rparr>)"
  by code_simp

end
